theory Spec2Isabelle
  imports Main "HOL-Library.AList" "HOL-Library.Extended_Nat"
begin

section \<open>File names, the frame-name pattern and frame numbers\<close>

text \<open>
  Two scripts are modelled: the GIF creator, which is the second script of the source file
  \<^verbatim>\<open>transparency-maker.js\<close> (from \<^verbatim>\<open>groupImagesByBaseName\<close> on), and
  \<^verbatim>\<open>transparent-gif-creator.js\<close>; \<^verbatim>\<open>checkDependencies\<close> is the one all three scripts have.
  A JavaScript string is a \<^typ>\<open>string\<close> holding the bytes of its UTF-8 encoding; a
  directory entry is a name that \<^verbatim>\<open>fs.readdirSync\<close> returns, which holds no path
  separator. Paths are joined the POSIX way.
\<close>

definition isDigit :: "char \<Rightarrow> bool" where
  "isDigit c = (c \<in> set ''0123456789'')"

text \<open>The dot of a regular expression without the \<^verbatim>\<open>s\<close> flag matches any character but a
  line terminator: U+000A, U+000D, U+2028 and U+2029. In UTF-8 the first two are one byte
  each, the last two the bytes \<^verbatim>\<open>E2 80 A8\<close> and \<^verbatim>\<open>E2 80 A9\<close>; the byte \<^verbatim>\<open>E2\<close> only ever
  starts a character.\<close>

fun hasLineTerminator :: "string \<Rightarrow> bool" where
  "hasLineTerminator [] = False"
| "hasLineTerminator (c # cs) =
     (c = CHR 0x0A \<or> c = CHR 0x0D
      \<or> (c = CHR 0xE2 \<and> (take 2 cs = [CHR 0x80, CHR 0xA8] \<or> take 2 cs = [CHR 0x80, CHR 0xA9]))
      \<or> hasLineTerminator cs)"

definition stripSuffix :: "string \<Rightarrow> string \<Rightarrow> string option" where
  "stripSuffix suf s =
     (if length suf \<le> length s \<and> drop (length s - length suf) s = suf
      then Some (take (length s - length suf) s) else None)"

text \<open>\<^verbatim>\<open>path.extname\<close> on a name without separator: the text from the last dot on, and
  the empty string when there is no dot, when the only dot is the first character, and
  for the name \<^verbatim>\<open>..\<close>.\<close>

definition extname :: "string \<Rightarrow> string" where
  "extname p =
     (let ext = rev (takeWhile (\<lambda>c. c \<noteq> CHR ''.'') (rev p)) in
      if CHR ''.'' \<notin> set p then []
      else if length p = Suc (length ext) then []
      else if p = ''..'' then []
      else CHR ''.'' # ext)"

text \<open>\<^verbatim>\<open>file.match(/^(.+)_(\d+)\.png$/)\<close>: the result is the pair of capture groups
  \<^verbatim>\<open>(match[1], match[2])\<close>, or \<open>None\<close> for \<^verbatim>\<open>null\<close>. The digit run is the longest run of
  digits before \<^verbatim>\<open>.png\<close>; the character before it has to be the underscore, and what is
  before the underscore is the base name, not empty and free of line terminators.\<close>

definition matchFile :: "string \<Rightarrow> (string \<times> string) option" where
  "matchFile file =
     (case stripSuffix ''.png'' file of
        None \<Rightarrow> None
      | Some stem \<Rightarrow>
          (let digits = rev (takeWhile isDigit (rev stem));
               rest = dropWhile isDigit (rev stem)
           in if digits = [] then None
              else (case rest of
                      [] \<Rightarrow> None
                    | c # rbase \<Rightarrow>
                        if c = CHR ''_'' \<and> rbase \<noteq> [] \<and> \<not> hasLineTerminator (rev rbase)
                        then Some (rev rbase, digits) else None)))"

definition digitValue :: "char \<Rightarrow> nat" where
  "digitValue c = of_char c - 48"

definition decimal :: "string \<Rightarrow> nat" where
  "decimal ds = foldl (\<lambda>n c. 10 * n + digitValue c) 0 ds"

fun bitLength :: "nat \<Rightarrow> nat" where
  "bitLength n = (if n = 0 then 0 else Suc (bitLength (n div 2)))"

text \<open>A JavaScript Number holding a non-negative integer: exact below \<open>2^53\<close>, above it
  rounded to 53 significant bits (to nearest, ties to even), and \<^verbatim>\<open>Infinity\<close>, written
  \<open>\<infinity>\<close>, from \<open>2^1024\<close> on.\<close>

definition toNumber :: "nat \<Rightarrow> enat" where
  "toNumber n =
     (if n < 2 ^ 53 then enat n
      else (let e = bitLength n - 53;
                q = n div 2 ^ e;
                r = n mod 2 ^ e;
                m = (if 2 ^ e < 2 * r \<or> (2 * r = 2 ^ e \<and> odd q) then q + 1 else q)
            in if 2 ^ 1024 \<le> m * 2 ^ e then \<infinity> else enat (m * 2 ^ e)))"

text \<open>\<^verbatim>\<open>parseInt\<close> on a run of decimal digits.\<close>

definition parseInt :: "string \<Rightarrow> enat" where
  "parseInt ds = toNumber (decimal ds)"

section \<open>Grouping a directory listing\<close>

record Frame =
  "file" :: string
  frame :: enat
  path :: string

datatype error =
    TypeError string
  | FsError string
  | ExecError string
  | ReferenceError string

text \<open>\<^verbatim>\<open>path.join(dir, name)\<close> for the directories of the scripts, which are written
  \<^verbatim>\<open>./converted/...\<close>: the leading \<^verbatim>\<open>./\<close> is normalised away.\<close>

definition pathJoin :: "string \<Rightarrow> string \<Rightarrow> string" where
  "pathJoin dir name = (if take 2 dir = ''./'' then drop 2 dir else dir) @ ''/'' @ name"

text \<open>\<^verbatim>\<open>groups\<close> is an object literal \<^verbatim>\<open>{}\<close>: its own properties, in insertion order, are an
  association list; a property it does not own is looked up in \<^verbatim>\<open>Object.prototype\<close>.\<close>

type_synonym groups = "(string \<times> Frame list) list"

definition objectPrototypeProps :: "string list" where
  "objectPrototypeProps =
     [''constructor'', ''__defineGetter__'', ''__defineSetter__'', ''hasOwnProperty'',
      ''__lookupGetter__'', ''__lookupSetter__'', ''isPrototypeOf'',
      ''propertyIsEnumerable'', ''toString'', ''valueOf'', ''__proto__'',
      ''toLocaleString'']"

datatype jsvalue = Undefined | Array "Frame list" | Inherited

definition getProp :: "groups \<Rightarrow> string \<Rightarrow> jsvalue" where
  "getProp groups k =
     (case map_of groups k of
        Some fs \<Rightarrow> Array fs
      | None \<Rightarrow> if k \<in> set objectPrototypeProps then Inherited else Undefined)"

text \<open>The body of \<^verbatim>\<open>files.forEach\<close>. An inherited property is truthy, so no array is
  stored for its name, and it has no \<^verbatim>\<open>push\<close>: the call throws a TypeError.\<close>

definition addFile :: "string \<Rightarrow> groups \<Rightarrow> string \<Rightarrow> error + groups" where
  "addFile dir groups f =
     (if extname f = ''.png'' then
        (case matchFile f of
           None \<Rightarrow> Inr groups
         | Some (baseName, digits) \<Rightarrow>
             (let frameNumber = parseInt digits;
                  groups1 = (if getProp groups baseName = Undefined
                             then AList.update baseName [] groups else groups)
              in case getProp groups1 baseName of
                   Array fs \<Rightarrow>
                     Inr (AList.update baseName
                            (fs @ [\<lparr>file = f, frame = frameNumber, path = pathJoin dir f\<rparr>])
                            groups1)
                 | _ \<Rightarrow> Inl (TypeError ''groups[baseName].push is not a function'')))
      else Inr groups)"

fun addFiles :: "string \<Rightarrow> groups \<Rightarrow> string list \<Rightarrow> error + groups" where
  "addFiles dir groups [] = Inr groups"
| "addFiles dir groups (f # fs) =
     (case addFile dir groups f of
        Inl e \<Rightarrow> Inl e
      | Inr groups' \<Rightarrow> addFiles dir groups' fs)"

text \<open>\<^verbatim>\<open>Object.keys\<close>: the keys that are array indices (canonical decimal numerals below
  \<open>2^32 - 1\<close>) come first, in ascending numeric order, then the other keys in insertion
  order.\<close>

definition isArrayIndex :: "string \<Rightarrow> bool" where
  "isArrayIndex k =
     (k \<noteq> [] \<and> list_all isDigit k \<and> (k = ''0'' \<or> hd k \<noteq> CHR ''0'')
      \<and> decimal k < 2 ^ 32 - 1)"

definition objectKeys :: "groups \<Rightarrow> string list" where
  "objectKeys groups =
     sort_key decimal (filter isArrayIndex (map fst groups))
     @ filter (\<lambda>k. \<not> isArrayIndex k) (map fst groups)"

text \<open>The body of the second loop: sort the group's frames in place with the comparator
  \<^verbatim>\<open>a.frame - b.frame\<close> (a stable sort by frame number), then delete a group of fewer
  than two frames.\<close>

definition finishGroup :: "groups \<Rightarrow> string \<Rightarrow> groups" where
  "finishGroup groups baseName =
     (case map_of groups baseName of
        None \<Rightarrow> groups
      | Some fs \<Rightarrow>
          (let groups1 = AList.update baseName (sort_key frame fs) groups
           in if length (sort_key frame fs) < 2 then AList.delete baseName groups1
              else groups1))"

text \<open>\<^verbatim>\<open>groupImagesByBaseName\<close> and \<^verbatim>\<open>groupTransparentImagesByBaseName\<close> differ in the
  directory only; \<open>files\<close> is what \<^verbatim>\<open>fs.readdirSync\<close> returned.\<close>

definition groupByBaseName :: "string \<Rightarrow> string list \<Rightarrow> error + groups" where
  "groupByBaseName dir files =
     (case addFiles dir [] files of
        Inl e \<Rightarrow> Inl e
      | Inr groups \<Rightarrow> Inr (fold (\<lambda>baseName g. finishGroup g baseName) (objectKeys groups) groups))"

definition texturesDir :: string where
  "texturesDir = ''./converted/textures''"

definition transparentDir :: string where
  "transparentDir = ''./converted/transparent''"

definition groupImagesByBaseName :: "string list \<Rightarrow> error + groups" where
  "groupImagesByBaseName files = groupByBaseName texturesDir files"

definition groupTransparentImagesByBaseName :: "string list \<Rightarrow> error + groups" where
  "groupTransparentImagesByBaseName files = groupByBaseName transparentDir files"

text \<open>What the listing determines, stated apart from the loops: the base name of an
  entry, the frame record pushed for it, and the frames of one base name in listing
  order.\<close>

definition baseOf :: "string \<Rightarrow> string option" where
  "baseOf f = map_option fst (matchFile f)"

definition mkFrame :: "string \<Rightarrow> string \<Rightarrow> Frame" where
  "mkFrame dir f =
     \<lparr>file = f,
      frame = (case matchFile f of Some (b, ds) \<Rightarrow> parseInt ds | None \<Rightarrow> 0),
      path = pathJoin dir f\<rparr>"

definition framesOf :: "string \<Rightarrow> string \<Rightarrow> string list \<Rightarrow> Frame list" where
  "framesOf dir k files = map (mkFrame dir) (filter (\<lambda>f. baseOf f = Some k) files)"

text \<open>A digit run written without a leading zero, and an entry whose digit run is so
  written and denotes a number below \<open>2^53\<close>, which a Number holds exactly.\<close>

definition canonicalDigits :: "string \<Rightarrow> bool" where
  "canonicalDigits ds = (ds = ''0'' \<or> (ds \<noteq> [] \<and> hd ds \<noteq> CHR ''0''))"

definition plainFrameNumber :: "string \<Rightarrow> bool" where
  "plainFrameNumber f =
     (case matchFile f of
        None \<Rightarrow> True
      | Some (b, ds) \<Rightarrow> canonicalDigits ds \<and> decimal ds < 2 ^ 53)"

text \<open>The entries of the listing that belong to one base name, the digit run of an
  entry, and an entry whose digit run has \<open>w\<close> digits (a number padded with zeros to that
  width) and denotes a number below \<open>2^53\<close>.\<close>

definition entriesOf :: "string \<Rightarrow> string list \<Rightarrow> string list" where
  "entriesOf k files = filter (\<lambda>f. baseOf f = Some k) files"

definition digitsOf :: "string \<Rightarrow> string" where
  "digitsOf f = (case matchFile f of Some (b, ds) \<Rightarrow> ds | None \<Rightarrow> [])"

definition paddedFrameNumber :: "nat \<Rightarrow> string \<Rightarrow> bool" where
  "paddedFrameNumber w f = (length (digitsOf f) = w \<and> decimal (digitsOf f) < 2 ^ 53)"

section \<open>The operating system and the process\<close>

text \<open>The file system is keyed by the path strings the scripts pass to \<^verbatim>\<open>fs\<close>. A path in
  \<open>denied\<close> cannot be created, written or removed.\<close>

record system =
  contents :: "string \<rightharpoonup> string"
  dirs :: "string set"
  listing :: "string \<rightharpoonup> string list"
  denied :: "string set"
  cwd :: string

text \<open>The state of one Node process: the system it runs on, \<^verbatim>\<open>global.imageMagickPath\<close>
  (\<open>None\<close> for \<^verbatim>\<open>undefined\<close>), \<^verbatim>\<open>process.env.MAGICK_PATH\<close>, and the commands handed to
  \<^verbatim>\<open>exec\<close> so far, in order.\<close>

record process =
  sys :: system
  imageMagickPath :: "string option"
  MAGICK_PATH :: "string option"
  execLog :: "string list"

text \<open>A shell runs a command on the system; the flag is \<open>True\<close> when the callback of
  \<^verbatim>\<open>exec\<close> receives no error.\<close>

type_synonym shell = "string \<Rightarrow> system \<Rightarrow> bool \<times> system"

definition exec :: "shell \<Rightarrow> string \<Rightarrow> process \<Rightarrow> bool \<times> process" where
  "exec sh command s =
     (case sh command (sys s) of
        (ok, w) \<Rightarrow> (ok, s\<lparr>sys := w, execLog := execLog s @ [command]\<rparr>))"

definition existsSync :: "string \<Rightarrow> system \<Rightarrow> bool" where
  "existsSync p w = (p \<in> dirs w \<or> contents w p \<noteq> None)"

definition pathPrefixes :: "string \<Rightarrow> string list" where
  "pathPrefixes p = map (\<lambda>i. take i p) (filter (\<lambda>i. p ! i = CHR ''/'') [1..<length p]) @ [p]"

text \<open>\<^verbatim>\<open>fs.mkdirSync(p, { recursive: true })\<close>.\<close>

definition mkdirSync :: "string \<Rightarrow> system \<Rightarrow> error + system" where
  "mkdirSync p w =
     (if list_ex (\<lambda>q. q \<in> denied w \<or> contents w q \<noteq> None) (pathPrefixes p)
      then Inl (FsError ''mkdir'')
      else Inr (w\<lparr>dirs := dirs w \<union> set (pathPrefixes p)\<rparr>))"

definition readdirSync :: "string \<Rightarrow> system \<Rightarrow> error + string list" where
  "readdirSync p w =
     (case listing w p of None \<Rightarrow> Inl (FsError ''scandir'') | Some names \<Rightarrow> Inr names)"

definition writeFileSync :: "string \<Rightarrow> string \<Rightarrow> system \<Rightarrow> error + system" where
  "writeFileSync p content w =
     (if p \<in> denied w \<or> p \<in> dirs w then Inl (FsError ''open'')
      else Inr (w\<lparr>contents := (contents w)(p \<mapsto> content)\<rparr>))"

definition unlinkSync :: "string \<Rightarrow> system \<Rightarrow> error + system" where
  "unlinkSync p w =
     (if contents w p = None \<or> p \<in> denied w then Inl (FsError ''unlink'')
      else Inr (w\<lparr>contents := (contents w)(p := None)\<rparr>))"

definition pathResolve :: "system \<Rightarrow> string \<Rightarrow> string" where
  "pathResolve w p = cwd w @ ''/'' @ p"

definition quoted :: "string \<Rightarrow> string" where
  "quoted s = CHR 0x22 # s @ [CHR 0x22]"

fun join :: "string \<Rightarrow> string list \<Rightarrow> string" where
  "join sep [] = []"
| "join sep [x] = x"
| "join sep (x # y # ys) = x @ sep @ join sep (y # ys)"

section \<open>The tool-availability probe\<close>

datatype 'a promise = Pending | Resolved 'a | Rejected error

definition resolve :: "'a \<Rightarrow> 'a promise \<Rightarrow> 'a promise" where
  "resolve v p = (case p of Pending \<Rightarrow> Resolved v | _ \<Rightarrow> p)"

definition winPath :: "string list \<Rightarrow> string" where
  "winPath parts = join [CHR 0x5C] parts"

definition commonPaths :: "string list" where
  "commonPaths =
     [winPath [''C:'', ''Program Files'', ''ImageMagick-7.1.2-Q16-HDRI'', ''magick.exe''],
      winPath [''C:'', ''Program Files'', ''ImageMagick-7.1.1-Q16-HDRI'', ''magick.exe''],
      winPath [''C:'', ''Program Files'', ''ImageMagick-7.1.0-Q16-HDRI'', ''magick.exe''],
      winPath [''C:'', ''Program Files'', ''ImageMagick'', ''magick.exe''],
      winPath [''C:'', ''ImageMagick'', ''magick.exe'']]"

text \<open>The loop over \<^verbatim>\<open>commonPaths\<close>: at the first path that exists it stores the quoted
  path, resolves, sets \<^verbatim>\<open>found\<close> and breaks. The result is \<^verbatim>\<open>found\<close>, the promise and the
  process.\<close>

fun searchCommonPaths ::
  "string list \<Rightarrow> string option promise \<Rightarrow> process \<Rightarrow> bool \<times> string option promise \<times> process"
where
  "searchCommonPaths [] pr s = (False, pr, s)"
| "searchCommonPaths (p # ps) pr s =
     (if existsSync p (sys s)
      then (True, resolve (Some ''imagemagick-path'') pr, s\<lparr>imageMagickPath := Some (quoted p)\<rparr>)
      else searchCommonPaths ps pr s)"

text \<open>The end of the probe, reached when neither command name answers and
  \<^verbatim>\<open>MAGICK_PATH\<close> names no existing file: the common paths, then \<^verbatim>\<open>ffmpeg -version\<close>.\<close>

definition probeCommonPathsThenFFmpeg ::
  "shell \<Rightarrow> process \<Rightarrow> string option promise \<times> process" where
  "probeCommonPathsThenFFmpeg sh s2 =
     (case searchCommonPaths commonPaths Pending s2 of
        (True, pr, s3) \<Rightarrow> (pr, s3)
      | (False, pr, s3) \<Rightarrow>
          (case exec sh ''ffmpeg -version'' s3 of
             (True, s4) \<Rightarrow> (resolve (Some ''ffmpeg'') pr, s4)
           | (False, s4) \<Rightarrow> (resolve None pr, s4)))"

text \<open>\<^verbatim>\<open>checkDependencies\<close>, the same in the three scripts but for console output: the
  promise after every callback has run, and the process. An empty \<^verbatim>\<open>MAGICK_PATH\<close> is
  falsy.\<close>

definition checkDependencies :: "shell \<Rightarrow> process \<Rightarrow> string option promise \<times> process" where
  "checkDependencies sh s0 =
     (case exec sh ''magick -version'' s0 of
        (True, s1) \<Rightarrow> (resolve (Some ''imagemagick'') Pending, s1)
      | (False, s1) \<Rightarrow>
          (case exec sh ''convert -version'' s1 of
             (True, s2) \<Rightarrow> (resolve (Some ''imagemagick-convert'') Pending, s2)
           | (False, s2) \<Rightarrow>
               (case MAGICK_PATH s2 of
                  None \<Rightarrow> probeCommonPathsThenFFmpeg sh s2
                | Some magickPath \<Rightarrow>
                    if magickPath \<noteq> [] \<and> existsSync magickPath (sys s2)
                    then (resolve (Some ''imagemagick-path'') Pending,
                          s2\<lparr>imageMagickPath := Some (quoted magickPath)\<rparr>)
                    else probeCommonPathsThenFFmpeg sh s2)))"

section \<open>The backends\<close>

text \<open>A backend call ends with the promise resolved to the output path (\<open>Inr\<close>) or
  rejected (\<open>Inl\<close>). \<^verbatim>\<open>global.imageMagickPath\<close> is used when it is truthy.\<close>

definition magickCommand :: "process \<Rightarrow> string" where
  "magickCommand s =
     (case imageMagickPath s of
        None \<Rightarrow> ''magick''
      | Some p \<Rightarrow> if p \<noteq> [] then p else ''magick'')"

definition outputDirGifs :: string where
  "outputDirGifs = ''./converted/gifs''"

definition outputDirTransparentGifs :: string where
  "outputDirTransparentGifs = ''./converted/transparent-gifs''"

definition createGifWithImageMagick ::
  "shell \<Rightarrow> string \<Rightarrow> Frame list \<Rightarrow> process \<Rightarrow> (error + string) \<times> process" where
  "createGifWithImageMagick sh baseName frames s =
     (let inputFiles = join '' '' (map (\<lambda>fr. quoted (path fr)) frames);
          outputPath = pathJoin outputDirGifs (baseName @ ''.gif'');
          command = magickCommand s @ '' -delay 10 -loop 0 -dispose previous '' @ inputFiles
                    @ '' -coalesce -layers optimize '' @ quoted outputPath
      in case exec sh command s of
           (True, s') \<Rightarrow> (Inr outputPath, s')
         | (False, s') \<Rightarrow> (Inl (ExecError command), s'))"

definition createTransparentGifWithImageMagick ::
  "shell \<Rightarrow> string \<Rightarrow> Frame list \<Rightarrow> process \<Rightarrow> (error + string) \<times> process" where
  "createTransparentGifWithImageMagick sh baseName frames s =
     (let inputFiles = join '' '' (map (\<lambda>fr. quoted (path fr)) frames);
          outputPath = pathJoin outputDirTransparentGifs (baseName @ ''.gif'');
          command = magickCommand s @ '' -delay 20 -loop 0 -dispose previous '' @ inputFiles
                    @ '' '' @ quoted outputPath
      in case exec sh command s of
           (True, s') \<Rightarrow> (Inr outputPath, s')
         | (False, s') \<Rightarrow> (Inl (ExecError command), s'))"

definition listContent :: "system \<Rightarrow> Frame list \<Rightarrow> string" where
  "listContent w frames =
     join [CHR 0x0A]
       (map (\<lambda>fr. ''file '' @ [CHR 0x27] @ pathResolve w (path fr) @ [CHR 0x27]) frames)"

text \<open>\<^verbatim>\<open>try { fs.unlinkSync(a); fs.unlinkSync(b); } catch (e) {}\<close>: when the first removal
  throws, the second is not tried.\<close>

definition cleanUp :: "string \<Rightarrow> string \<Rightarrow> process \<Rightarrow> process" where
  "cleanUp a b s =
     (case unlinkSync a (sys s) of
        Inl e \<Rightarrow> s
      | Inr w1 \<Rightarrow>
          (case unlinkSync b w1 of
             Inl e \<Rightarrow> s\<lparr>sys := w1\<rparr>
           | Inr w2 \<Rightarrow> s\<lparr>sys := w2\<rparr>))"

text \<open>The two command lines of \<^verbatim>\<open>createGifWithFFmpeg\<close>, \<^verbatim>\<open>command1\<close> and \<^verbatim>\<open>command2\<close>.\<close>

definition command1 :: "string \<Rightarrow> string \<Rightarrow> string" where
  "command1 listFile paletteFile =
     ''ffmpeg -f concat -safe 0 -i '' @ quoted listFile @ '' -vf ''
     @ quoted ''fps=10,scale=320:-1:flags=lanczos,palettegen''
     @ '' -y '' @ quoted paletteFile"

definition command2 :: "string \<Rightarrow> string \<Rightarrow> string \<Rightarrow> string" where
  "command2 listFile paletteFile outputPath =
     ''ffmpeg -f concat -safe 0 -i '' @ quoted listFile @ '' -i '' @ quoted paletteFile
     @ '' -lavfi '' @ quoted ''fps=10,scale=320:-1:flags=lanczos[x];[x][1:v]paletteuse''
     @ '' -y '' @ quoted outputPath"

text \<open>\<^verbatim>\<open>createGifWithFFmpeg\<close> of the GIF creator: two \<^verbatim>\<open>exec\<close> calls, the second in the
  callback of the first. A failure of the first rejects and returns at once. An
  exception of \<^verbatim>\<open>writeFileSync\<close> in the executor rejects the promise.\<close>

definition createGifWithFFmpeg ::
  "shell \<Rightarrow> string \<Rightarrow> Frame list \<Rightarrow> process \<Rightarrow> (error + string) \<times> process" where
  "createGifWithFFmpeg sh baseName frames s =
     (let listFile = pathJoin outputDirGifs (baseName @ ''_list.txt'') in
      case writeFileSync listFile (listContent (sys s) frames) (sys s) of
        Inl e \<Rightarrow> (Inl e, s)
      | Inr w1 \<Rightarrow>
          (let outputPath = pathJoin outputDirGifs (baseName @ ''.gif'');
               paletteFile = pathJoin outputDirGifs (baseName @ ''_palette.png'')
           in case exec sh (command1 listFile paletteFile) (s\<lparr>sys := w1\<rparr>) of
                (False, s2) \<Rightarrow> (Inl (ExecError (command1 listFile paletteFile)), s2)
              | (True, s2) \<Rightarrow>
                  (case exec sh (command2 listFile paletteFile outputPath) s2 of
                     (ok, s3) \<Rightarrow>
                       (let s4 = cleanUp listFile paletteFile s3
                        in if ok then (Inr outputPath, s4)
                           else (Inl (ExecError (command2 listFile paletteFile outputPath)),
                                 s4)))))"

text \<open>The two command lines of \<^verbatim>\<open>createTransparentGifWithFFmpeg\<close>.\<close>

definition paletteCmd :: "string \<Rightarrow> string" where
  "paletteCmd listFile =
     ''ffmpeg -f concat -safe 0 -i '' @ quoted listFile @ '' -vf ''
     @ quoted (''fps=5,scale=320:-1:flags=lanczos,''
               @ ''palettegen=reserve_transparent=on:transparency_color=ffffff'')
     @ '' -y '' @ quoted (listFile @ ''.palette.png'')"

definition gifCmd :: "string \<Rightarrow> string \<Rightarrow> string" where
  "gifCmd listFile outputPath =
     ''ffmpeg -f concat -safe 0 -i '' @ quoted listFile @ '' -i ''
     @ quoted (listFile @ ''.palette.png'') @ '' -lavfi ''
     @ quoted (''fps=5,scale=320:-1:flags=lanczos[x];[x][1:v]''
               @ ''paletteuse=alpha_threshold=128'')
     @ '' -y '' @ quoted outputPath"

text \<open>\<^verbatim>\<open>createTransparentGifWithFFmpeg\<close>: one \<^verbatim>\<open>exec\<close> of both commands joined by
  \<^verbatim>\<open>&&\<close>; its callback cleans up first.\<close>

definition createTransparentGifWithFFmpeg ::
  "shell \<Rightarrow> string \<Rightarrow> Frame list \<Rightarrow> process \<Rightarrow> (error + string) \<times> process" where
  "createTransparentGifWithFFmpeg sh baseName frames s =
     (let listFile = pathJoin outputDirTransparentGifs (baseName @ ''_list.txt'') in
      case writeFileSync listFile (listContent (sys s) frames) (sys s) of
        Inl e \<Rightarrow> (Inl e, s)
      | Inr w1 \<Rightarrow>
          (let outputPath = pathJoin outputDirTransparentGifs (baseName @ ''.gif'');
               command = paletteCmd listFile @ '' && '' @ gifCmd listFile outputPath
           in case exec sh command (s\<lparr>sys := w1\<rparr>) of
                (ok, s2) \<Rightarrow>
                  (let s3 = cleanUp listFile (listFile @ ''.palette.png'') s2
                   in if ok then (Inr outputPath, s3)
                      else (Inl (ExecError command), s3))))"

section \<open>The drivers\<close>

datatype backend = ImageMagick | FFmpeg

text \<open>One entry per backend call of the driver loop: the backend, the group and whether
  the call succeeded.\<close>

datatype attempt = Attempt backend string bool

record tally =
  successCount :: nat
  failCount :: nat
  attempts :: "attempt list"

type_synonym invoker = "string \<Rightarrow> Frame list \<Rightarrow> process \<Rightarrow> (error + string) \<times> process"

text \<open>The loop \<^verbatim>\<open>for (const baseName of groupNames)\<close> with its nested \<^verbatim>\<open>try\<close>/\<^verbatim>\<open>catch\<close>,
  shared by \<^verbatim>\<open>createGifs\<close> and \<^verbatim>\<open>createTransparentGifs\<close>.\<close>

fun processGroups ::
  "invoker \<Rightarrow> invoker \<Rightarrow> (string \<times> Frame list) list \<Rightarrow> tally \<Rightarrow> process \<Rightarrow> tally \<times> process"
where
  "processGroups primary fallback [] t s = (t, s)"
| "processGroups primary fallback ((baseName, frames) # rest) t s =
     (case primary baseName frames s of
        (Inr outputPath, s1) \<Rightarrow>
          processGroups primary fallback rest
            (t\<lparr>successCount := successCount t + 1,
               attempts := attempts t @ [Attempt ImageMagick baseName True]\<rparr>) s1
      | (Inl e, s1) \<Rightarrow>
          (case fallback baseName frames s1 of
             (Inr outputPath, s2) \<Rightarrow>
               processGroups primary fallback rest
                 (t\<lparr>successCount := successCount t + 1,
                    attempts := attempts t @ [Attempt ImageMagick baseName False,
                                              Attempt FFmpeg baseName True]\<rparr>) s2
           | (Inl ffmpegError, s2) \<Rightarrow>
               processGroups primary fallback rest
                 (t\<lparr>failCount := failCount t + 1,
                    attempts := attempts t @ [Attempt ImageMagick baseName False,
                                              Attempt FFmpeg baseName False]\<rparr>) s2))"

text \<open>\<^verbatim>\<open>groups[baseName]\<close> for each name of \<^verbatim>\<open>Object.keys(groups)\<close>.\<close>

definition groupEntries :: "groups \<Rightarrow> (string \<times> Frame list) list" where
  "groupEntries groups =
     map (\<lambda>k. (k, case map_of groups k of Some fs \<Rightarrow> fs | None \<Rightarrow> [])) (objectKeys groups)"

definition noTally :: tally where
  "noTally = \<lparr>successCount = 0, failCount = 0, attempts = []\<rparr>"

definition createGifs :: "shell \<Rightarrow> groups \<Rightarrow> process \<Rightarrow> tally \<times> process" where
  "createGifs sh groups s =
     processGroups (createGifWithImageMagick sh) (createGifWithFFmpeg sh)
       (groupEntries groups) noTally s"

text \<open>\<^verbatim>\<open>createTransparentGifs\<close> reads the directory itself: \<open>Inl\<close> when the promise is
  rejected by an exception of the grouping, \<open>Inr None\<close> when it returns for lack of
  sequences, \<open>Inr (Some t)\<close> after the loop.\<close>

definition createTransparentGifs :: "shell \<Rightarrow> process \<Rightarrow> (error + tally option) \<times> process" where
  "createTransparentGifs sh s =
     (case readdirSync transparentDir (sys s) of
        Inl e \<Rightarrow> (Inl e, s)
      | Inr names \<Rightarrow>
          (case groupTransparentImagesByBaseName names of
             Inl e \<Rightarrow> (Inl e, s)
           | Inr groups \<Rightarrow>
               if length (objectKeys groups) = 0 then (Inr None, s)
               else (case processGroups (createTransparentGifWithImageMagick sh)
                            (createTransparentGifWithFFmpeg sh) (groupEntries groups) noTally s of
                       (t, s') \<Rightarrow> (Inr (Some t), s'))))"

section \<open>The scripts\<close>

datatype stage = CheckInput | ProbeTools | BuildGroups | InstallTool | ProcessGroups | PrintTally

text \<open>How a run ends: \<^verbatim>\<open>console.error\<close> and \<^verbatim>\<open>process.exit(1)\<close>; \<^verbatim>\<open>console.log\<close> and
  \<^verbatim>\<open>return\<close>; the tally printed; an exception that rejects \<^verbatim>\<open>main()\<close> and is printed by
  \<^verbatim>\<open>.catch(console.error)\<close>; \<^verbatim>\<open>process.exit(0)\<close> after an installation; an exception
  while the module loads; an awaited promise that never settles, which leaves the event
  loop empty.\<close>

datatype ending =
    Fatal string
  | NothingToDo string
  | Done tally
  | Caught error
  | Installed
  | LoadFailed error
  | Unsettled

record report =
  exitCode :: nat
  stages :: "stage list"
  ending :: ending

text \<open>The module body before \<^verbatim>\<open>main\<close>: \<^verbatim>\<open>if (!fs.existsSync(outputDir)) fs.mkdirSync(...)\<close>.\<close>

definition ensureOutputDir :: "string \<Rightarrow> process \<Rightarrow> error + process" where
  "ensureOutputDir outputDir s =
     (if \<not> existsSync outputDir (sys s)
      then (case mkdirSync outputDir (sys s) of
              Inl e \<Rightarrow> Inl e
            | Inr w \<Rightarrow> Inr (s\<lparr>sys := w\<rparr>))
      else Inr s)"

text \<open>A string or \<^verbatim>\<open>null\<close> used as a condition: \<^verbatim>\<open>null\<close> and the empty string are falsy.\<close>

definition truthy :: "string option \<Rightarrow> bool" where
  "truthy v = (case v of None \<Rightarrow> False | Some t \<Rightarrow> t \<noteq> [])"

text \<open>\<^verbatim>\<open>main\<close> of \<^verbatim>\<open>transparent-gif-creator.js\<close>.\<close>

definition mainTransparentGifs :: "shell \<Rightarrow> process \<Rightarrow> report \<times> process" where
  "mainTransparentGifs sh s =
     (if \<not> existsSync transparentDir (sys s)
      then (\<lparr>exitCode = 1, stages = [CheckInput],
             ending = Fatal ''Transparent textures directory not found''\<rparr>, s)
      else (case checkDependencies sh s of
              (Resolved tool, s1) \<Rightarrow>
                if \<not> truthy tool
                then (\<lparr>exitCode = 1, stages = [CheckInput, ProbeTools],
                       ending = Fatal ''No image processing tools found.''\<rparr>, s1)
                else (case createTransparentGifs sh s1 of
                        (Inl e, s2) \<Rightarrow>
                          (\<lparr>exitCode = 0, stages = [CheckInput, ProbeTools, BuildGroups],
                            ending = Caught e\<rparr>, s2)
                      | (Inr None, s2) \<Rightarrow>
                          (\<lparr>exitCode = 0, stages = [CheckInput, ProbeTools, BuildGroups],
                            ending = NothingToDo ''No transparent image sequences found.''\<rparr>,
                           s2)
                      | (Inr (Some t), s2) \<Rightarrow>
                          (\<lparr>exitCode = 0,
                            stages = [CheckInput, ProbeTools, BuildGroups, ProcessGroups,
                                      PrintTally],
                            ending = Done t\<rparr>, s2))
            | (Rejected e, s1) \<Rightarrow>
                (\<lparr>exitCode = 0, stages = [CheckInput, ProbeTools], ending = Caught e\<rparr>, s1)
            | (Pending, s1) \<Rightarrow>
                (\<lparr>exitCode = 0, stages = [CheckInput, ProbeTools],
                  ending = Unsettled\<rparr>, s1)))"

text \<open>The whole script: the module body, then \<^verbatim>\<open>main().catch(console.error)\<close>. An
  exception of the module body is uncaught: Node exits with code 1.\<close>

definition runTransparentGifCreator :: "shell \<Rightarrow> process \<Rightarrow> report \<times> process" where
  "runTransparentGifCreator sh s =
     (case ensureOutputDir outputDirTransparentGifs s of
        Inl e \<Rightarrow> (\<lparr>exitCode = 1, stages = [], ending = LoadFailed e\<rparr>, s)
      | Inr s' \<Rightarrow> mainTransparentGifs sh s')"

text \<open>\<^verbatim>\<open>main\<close> of the GIF creator. \<^verbatim>\<open>installImageMagick\<close> is called but defined nowhere in
  the source file, so it is a parameter: \<open>Inr\<close> when its promise resolves, and \<open>Inl\<close> when
  it rejects or the call throws (as the unbound name does, with a ReferenceError).\<close>

definition mainGifs ::
  "shell \<Rightarrow> (process \<Rightarrow> (error + unit) \<times> process) \<Rightarrow> process \<Rightarrow> report \<times> process" where
  "mainGifs sh installImageMagick s =
     (if \<not> existsSync texturesDir (sys s)
      then (\<lparr>exitCode = 1, stages = [CheckInput],
             ending = Fatal ''Textures directory not found''\<rparr>, s)
      else (case readdirSync texturesDir (sys s) of
              Inl e \<Rightarrow> (\<lparr>exitCode = 0, stages = [CheckInput, BuildGroups], ending = Caught e\<rparr>, s)
            | Inr names \<Rightarrow>
                (case groupImagesByBaseName names of
                   Inl e \<Rightarrow>
                     (\<lparr>exitCode = 0, stages = [CheckInput, BuildGroups], ending = Caught e\<rparr>, s)
                 | Inr groups \<Rightarrow>
                     if length (objectKeys groups) = 0
                     then (\<lparr>exitCode = 0, stages = [CheckInput, BuildGroups],
                            ending = NothingToDo ''No image sequences found.''\<rparr>, s)
                     else (case checkDependencies sh s of
                             (Resolved tool, s1) \<Rightarrow>
                               if \<not> truthy tool
                               then (case installImageMagick s1 of
                                       (Inr u, s2) \<Rightarrow>
                                         (\<lparr>exitCode = 0,
                                           stages = [CheckInput, BuildGroups, ProbeTools,
                                                     InstallTool],
                                           ending = Installed\<rparr>, s2)
                                     | (Inl e, s2) \<Rightarrow>
                                         (\<lparr>exitCode = 1,
                                           stages = [CheckInput, BuildGroups, ProbeTools,
                                                     InstallTool],
                                           ending = Fatal
                                             ''Failed to install ImageMagick automatically.''\<rparr>,
                                          s2))
                               else (case createGifs sh groups s1 of
                                       (t, s2) \<Rightarrow>
                                         (\<lparr>exitCode = 0,
                                           stages = [CheckInput, BuildGroups, ProbeTools,
                                                     ProcessGroups, PrintTally],
                                           ending = Done t\<rparr>, s2))
                           | (Rejected e, s1) \<Rightarrow>
                               (\<lparr>exitCode = 0, stages = [CheckInput, BuildGroups, ProbeTools],
                                 ending = Caught e\<rparr>, s1)
                           | (Pending, s1) \<Rightarrow>
                               (\<lparr>exitCode = 0, stages = [CheckInput, BuildGroups, ProbeTools],
                                 ending = Unsettled\<rparr>, s1)))))"

definition runGifCreator ::
  "shell \<Rightarrow> (process \<Rightarrow> (error + unit) \<times> process) \<Rightarrow> process \<Rightarrow> report \<times> process" where
  "runGifCreator sh installImageMagick s =
     (case ensureOutputDir outputDirGifs s of
        Inl e \<Rightarrow> (\<lparr>exitCode = 1, stages = [], ending = LoadFailed e\<rparr>, s)
      | Inr s' \<Rightarrow> mainGifs sh installImageMagick s')"

section \<open>Notions used to state the properties\<close>

text \<open>The path accepted by the third and fourth step of the probe, in the state reached
  when both version queries of ImageMagick have failed: \<^verbatim>\<open>MAGICK_PATH\<close> if it is set, not
  empty and exists, else the first of the common paths that exists.\<close>

definition resolvedPath :: "process \<Rightarrow> string option" where
  "resolvedPath s =
     (case MAGICK_PATH s of
        None \<Rightarrow> find (\<lambda>p. existsSync p (sys s)) commonPaths
      | Some magickPath \<Rightarrow>
          if magickPath \<noteq> [] \<and> existsSync magickPath (sys s) then Some magickPath
          else find (\<lambda>p. existsSync p (sys s)) commonPaths)"

definition startsWith :: "string \<Rightarrow> string \<Rightarrow> bool" where
  "startsWith p c = (take (length p) c = p)"

text \<open>From \<open>s\<close> to \<open>s'\<close> the stored path is kept, the log of commands is extended, and
  every command run in between satisfies \<open>P\<close>.\<close>

definition ranOnly :: "(string \<Rightarrow> bool) \<Rightarrow> process \<Rightarrow> process \<Rightarrow> bool" where
  "ranOnly P s s' =
     (imageMagickPath s' = imageMagickPath s
      \<and> take (length (execLog s)) (execLog s') = execLog s
      \<and> list_all P (drop (length (execLog s)) (execLog s')))"

definition toolCommand :: "string \<Rightarrow> bool" where
  "toolCommand c = (startsWith ''magick '' c \<or> startsWith ''ffmpeg '' c)"






section \<open>Concrete systems for the examples\<close>

text \<open>Shells: one on which every command fails, one on which only
  \<^verbatim>\<open>convert -version\<close> succeeds, and one on which the commands of \<^verbatim>\<open>ffmpeg\<close> succeed and
  no other. Invokers that fail on one group, and always.\<close>

definition noTools :: shell where
  "noTools command w = (False, w)"

definition convertOnly :: shell where
  "convertOnly command w = (command = ''convert -version'', w)"




definition missingInstaller :: "process \<Rightarrow> (error + unit) \<times> process" where
  "missingInstaller s = (Inl (ReferenceError ''installImageMagick is not defined''), s)"

definition emptySystem :: system where
  "emptySystem =
     \<lparr>contents = Map.empty, dirs = {}, listing = Map.empty, denied = {}, cwd = ''/work''\<rparr>"

definition freshProcess :: "system \<Rightarrow> process" where
  "freshProcess w = \<lparr>sys = w, imageMagickPath = None, MAGICK_PATH = None, execLog = []\<rparr>"

definition magickAtPath :: process where
  "magickAtPath =
     \<lparr>sys = emptySystem\<lparr>contents := [''/opt/im/magick'' \<mapsto> ''binary'']\<rparr>,
      imageMagickPath = None, MAGICK_PATH = Some ''/opt/im/magick'', execLog = []\<rparr>"

definition twoTransparentFrames :: system where
  "twoTransparentFrames =
     emptySystem\<lparr>dirs := {transparentDir},
                 listing := [transparentDir \<mapsto> [''a_0.png'', ''a_1.png'']]\<rparr>"

definition emptyTransparent :: system where
  "emptyTransparent = emptySystem\<lparr>dirs := {transparentDir}, listing := [transparentDir \<mapsto> []]\<rparr>"

definition twoTextureFrames :: system where
  "twoTextureFrames =
     emptySystem\<lparr>dirs := {texturesDir},
                 listing := [texturesDir \<mapsto> [''door_0.png'', ''door_1.png'']]\<rparr>"

definition emptyTextures :: system where
  "emptyTextures = emptySystem\<lparr>dirs := {texturesDir}, listing := [texturesDir \<mapsto> []]\<rparr>"

definition doorFrames :: "Frame list" where
  "doorFrames = [mkFrame texturesDir ''door_0.png'', mkFrame texturesDir ''door_1.png'']"

section \<open>The frame-name pattern\<close>

lemma stripSuffix_append: "stripSuffix suf (s @ suf) = Some s"
  by (simp add: stripSuffix_def)

lemma stripSuffix_SomeD: "stripSuffix suf s = Some stem \<Longrightarrow> s = stem @ suf"
  by (auto simp: stripSuffix_def split: if_splits) (metis append_take_drop_id)

lemma underscore_no_digit: "\<not> isDigit (CHR ''_'')"
  by (simp add: isDigit_def)

lemma matchFile_shape:
  assumes "ds \<noteq> []" "list_all isDigit ds"
  shows "matchFile (b @ ''_'' @ ds @ ''.png'')
         = (if b \<noteq> [] \<and> \<not> hasLineTerminator b then Some (b, ds) else None)"
proof -
  have s: "stripSuffix ''.png'' (b @ ''_'' @ ds @ ''.png'') = Some (b @ ''_'' @ ds)"
    using stripSuffix_append [of "''.png''" "b @ ''_'' @ ds"] by simp
  have r: "rev (b @ ''_'' @ ds) = rev ds @ CHR ''_'' # rev b" by simp
  have all: "\<forall>x\<in>set (rev ds). isDigit x" using assms(2) by (simp add: list_all_iff)
  have t: "takeWhile isDigit (rev ds @ CHR ''_'' # rev b) = rev ds"
    using all underscore_no_digit by (simp add: takeWhile_tail)
  have d: "dropWhile isDigit (rev ds @ CHR ''_'' # rev b) = CHR ''_'' # rev b"
    using all underscore_no_digit by (simp add: dropWhile_append3)
  show ?thesis
    unfolding matchFile_def s r using assms(1) by (simp add: t d)
qed

lemma matchFile_intro:
  assumes "b \<noteq> []" "\<not> hasLineTerminator b" "ds \<noteq> []" "list_all isDigit ds"
  shows "matchFile (b @ ''_'' @ ds @ ''.png'') = Some (b, ds)"
  using matchFile_shape [OF assms(3,4), of b] assms(1,2) by simp

lemma matchFile_SomeD:
  assumes "matchFile f = Some (b, ds)"
  shows "f = b @ ''_'' @ ds @ ''.png'' \<and> b \<noteq> [] \<and> \<not> hasLineTerminator b
         \<and> ds \<noteq> [] \<and> list_all isDigit ds"
proof -
  from assms obtain stem where s: "stripSuffix ''.png'' f = Some stem"
    by (auto simp: matchFile_def split: option.splits)
  then have f: "f = stem @ ''.png''" by (rule stripSuffix_SomeD)
  from assms s obtain rbase where
    ds: "ds = rev (takeWhile isDigit (rev stem))" and ne: "ds \<noteq> []" and
    rest: "dropWhile isDigit (rev stem) = CHR ''_'' # rbase" and
    b: "b = rev rbase" and rb: "rbase \<noteq> []" "\<not> hasLineTerminator (rev rbase)"
    by (auto simp: matchFile_def Let_def split: list.splits if_splits)
  have "rev stem = takeWhile isDigit (rev stem) @ dropWhile isDigit (rev stem)" by simp
  then have "rev stem = rev ds @ CHR ''_'' # rev b" using ds rest b by simp
  then have "rev (rev stem) = rev (rev ds @ CHR ''_'' # rev b)" by simp
  then have stem: "stem = b @ ''_'' @ ds" by simp
  have "list_all isDigit ds" unfolding ds list_all_iff
    by (auto dest: set_takeWhileD)
  then show ?thesis using f stem ne b rb by simp
qed

lemma matchFile_iff:
  "matchFile f = Some (b, ds) \<longleftrightarrow>
     f = b @ ''_'' @ ds @ ''.png'' \<and> b \<noteq> [] \<and> \<not> hasLineTerminator b
     \<and> ds \<noteq> [] \<and> list_all isDigit ds"
  using matchFile_intro matchFile_SomeD by blast

lemma take2_append: "take 2 cs = [a, b] \<Longrightarrow> take 2 (cs @ x) = [a, b]"
  by (cases cs; cases "tl cs") auto

lemma hasLineTerminator_append: "hasLineTerminator b \<Longrightarrow> hasLineTerminator (b @ x)"
  by (induction b) (auto simp: take2_append)

lemma plain_no_lineTerminator:
  "\<forall>c\<in>set x. isDigit c \<or> c = CHR ''_'' \<Longrightarrow> \<not> hasLineTerminator x"
  by (induction x) (auto simp: isDigit_def)

lemma take2_append_plain:
  assumes "\<forall>c\<in>set x. isDigit c \<or> c = CHR ''_''" "take 2 (cs @ x) = [CHR 0x80, a]"
      "a = CHR 0xA8 \<or> a = CHR 0xA9"
  shows "take 2 cs = [CHR 0x80, a]"
proof (cases cs)
  case Nil
  with assms show ?thesis by (cases x) (auto simp: isDigit_def)
next
  case (Cons c cs')
  show ?thesis
  proof (cases cs')
    case Nil
    with Cons assms show ?thesis by (cases x) (auto simp: isDigit_def)
  next
    case (Cons d ds)
    with \<open>cs = c # cs'\<close> assms show ?thesis by simp
  qed
qed

lemma hasLineTerminator_append_plain:
  assumes "\<forall>c\<in>set x. isDigit c \<or> c = CHR ''_''"
  shows "hasLineTerminator (b @ x) = hasLineTerminator b"
proof (induction b)
  case Nil
  show ?case using plain_no_lineTerminator [OF assms] by simp
next
  case (Cons c cs)
  show ?case
    using Cons take2_append_plain [OF assms, of cs] take2_append [of cs _ _ x]
    by auto
qed

lemma extname_png: "s \<noteq> [] \<Longrightarrow> extname (s @ ''.png'') = ''.png''"
  by (cases s) (simp_all add: extname_def)

lemma matchFile_extname: "matchFile f = Some x \<Longrightarrow> extname f = ''.png''"
  by (cases x) (auto dest!: matchFile_SomeD simp: extname_def)

section \<open>What the grouping returns\<close>

lemma addFile_map_of:
  assumes "addFile dir g f = Inr g'"
  shows "map_of g' k =
           (if baseOf f = Some k
            then Some ((case map_of g k of None \<Rightarrow> [] | Some fs \<Rightarrow> fs) @ [mkFrame dir f])
            else map_of g k)"
proof (cases "matchFile f")
  case None
  with assms show ?thesis
    by (simp add: addFile_def baseOf_def split: if_splits)
next
  case (Some x)
  obtain b ds where x: "x = (b, ds)" by (cases x)
  have ext: "extname f = ''.png''" using Some by (rule matchFile_extname)
  show ?thesis
  proof (cases "map_of g b")
    case None
    with assms Some x ext show ?thesis
      by (auto simp: addFile_def baseOf_def getProp_def mkFrame_def Let_def update_conv'
               split: if_splits)
  next
    case (Some fs)
    with assms \<open>matchFile f = Some x\<close> x ext show ?thesis
      by (auto simp: addFile_def baseOf_def getProp_def mkFrame_def Let_def update_conv'
               split: if_splits)
  qed
qed

lemma addFile_distinct:
  "addFile dir g f = Inr g' \<Longrightarrow> distinct (map fst g) \<Longrightarrow> distinct (map fst g')"
  by (auto simp: addFile_def Let_def distinct_update getProp_def
           split: if_splits option.splits jsvalue.splits)

lemma addFile_InlD:
  assumes "addFile dir g f = Inl e"
  shows "\<exists>b. baseOf f = Some b \<and> b \<in> set objectPrototypeProps \<and> map_of g b = None"
  using assms
  by (auto simp: addFile_def Let_def getProp_def baseOf_def update_conv'
           split: if_splits option.splits jsvalue.splits)

lemma addFile_Inl_iff:
  "(\<exists>e. addFile dir g f = Inl e) \<longleftrightarrow>
     (\<exists>b. baseOf f = Some b \<and> b \<in> set objectPrototypeProps \<and> map_of g b = None)"
proof
  assume "\<exists>e. addFile dir g f = Inl e"
  then show "\<exists>b. baseOf f = Some b \<and> b \<in> set objectPrototypeProps \<and> map_of g b = None"
    using addFile_InlD by blast
next
  assume "\<exists>b. baseOf f = Some b \<and> b \<in> set objectPrototypeProps \<and> map_of g b = None"
  then obtain b where b: "baseOf f = Some b" "b \<in> set objectPrototypeProps" "map_of g b = None"
    by blast
  then obtain ds where m: "matchFile f = Some (b, ds)"
    by (auto simp: baseOf_def)
  have ext: "extname f = ''.png''" using m by (rule matchFile_extname)
  show "\<exists>e. addFile dir g f = Inl e"
    using b m ext by (simp add: addFile_def getProp_def)
qed

lemma addFiles_map_of:
  "addFiles dir g files = Inr g' \<Longrightarrow>
   map_of g' k =
     (case map_of g k of
        Some fs \<Rightarrow> Some (fs @ framesOf dir k files)
      | None \<Rightarrow> if framesOf dir k files = [] then None else Some (framesOf dir k files))"
proof (induction files arbitrary: g)
  case Nil
  then show ?case by (simp add: framesOf_def split: option.splits)
next
  case (Cons f fs)
  from Cons.prems obtain g1 where a: "addFile dir g f = Inr g1" and r: "addFiles dir g1 fs = Inr g'"
    by (auto split: sum.splits)
  show ?case
    unfolding Cons.IH [OF r] addFile_map_of [OF a]
    by (simp add: framesOf_def split: option.splits)
qed

lemma addFiles_distinct:
  "addFiles dir g files = Inr g' \<Longrightarrow> distinct (map fst g) \<Longrightarrow> distinct (map fst g')"
  by (induction files arbitrary: g) (auto split: sum.splits dest: addFile_distinct)

lemma addFiles_total:
  "\<forall>f\<in>set files. \<forall>b. baseOf f = Some b \<longrightarrow> b \<notin> set objectPrototypeProps \<Longrightarrow>
   \<exists>g'. addFiles dir g files = Inr g'"
proof (induction files arbitrary: g)
  case Nil
  show ?case by simp
next
  case (Cons f fs)
  have "\<not> (\<exists>e. addFile dir g f = Inl e)"
    using Cons.prems by (auto simp: addFile_Inl_iff)
  then obtain g1 where "addFile dir g f = Inr g1" by (cases "addFile dir g f") auto
  then show ?case using Cons by simp
qed

lemma finishGroup_map_of:
  "map_of (finishGroup g b) k =
     (if k = b
      then (case map_of g b of
              None \<Rightarrow> None
            | Some fs \<Rightarrow> if length fs < 2 then None else Some (sort_key frame fs))
      else map_of g k)"
  by (auto simp: finishGroup_def Let_def update_conv' delete_conv' split: option.splits)

lemma finishGroup_distinct:
  "distinct (map fst g) \<Longrightarrow> distinct (map fst (finishGroup g b))"
  by (auto simp: finishGroup_def Let_def distinct_update distinct_delete split: option.splits)

lemma fold_finishGroup_map_of:
  "distinct ks \<Longrightarrow>
   map_of (fold (\<lambda>b g. finishGroup g b) ks g) k =
     (if k \<in> set ks
      then (case map_of g k of
              None \<Rightarrow> None
            | Some fs \<Rightarrow> if length fs < 2 then None else Some (sort_key frame fs))
      else map_of g k)"
proof (induction ks arbitrary: g)
  case Nil
  show ?case by simp
next
  case (Cons b ks)
  then have d: "distinct ks" and nb: "b \<notin> set ks" by simp_all
  show ?case
    using nb by (auto simp: Cons.IH [OF d] finishGroup_map_of)
qed

lemma fold_finishGroup_distinct:
  "distinct (map fst g) \<Longrightarrow> distinct (map fst (fold (\<lambda>b g. finishGroup g b) ks g))"
  by (induction ks arbitrary: g) (simp_all add: finishGroup_distinct)

lemma set_objectKeys: "set (objectKeys g) = fst ` set g"
  by (auto simp: objectKeys_def)

lemma distinct_objectKeys: "distinct (map fst g) \<Longrightarrow> distinct (objectKeys g)"
  by (auto simp: objectKeys_def)

lemma map_of_None_iff_keys: "map_of g k = None \<longleftrightarrow> k \<notin> fst ` set g"
  by (simp add: map_of_eq_None_iff)

lemma groupByBaseName_map_of:
  assumes "groupByBaseName dir files = Inr g"
  shows "map_of g k =
           (if 2 \<le> length (framesOf dir k files)
            then Some (sort_key frame (framesOf dir k files)) else None)"
proof -
  from assms obtain g0 where a: "addFiles dir [] files = Inr g0"
    and g: "g = fold (\<lambda>b g. finishGroup g b) (objectKeys g0) g0"
    by (auto simp: groupByBaseName_def split: sum.splits)
  have d: "distinct (objectKeys g0)"
    using addFiles_distinct [OF a] by (simp add: distinct_objectKeys)
  have m: "map_of g0 k = (if framesOf dir k files = [] then None else Some (framesOf dir k files))"
    using addFiles_map_of [OF a, of k] by simp
  have k: "k \<in> set (objectKeys g0) \<longleftrightarrow> map_of g0 k \<noteq> None"
    by (simp add: set_objectKeys map_of_eq_None_iff)
  show ?thesis
    unfolding g fold_finishGroup_map_of [OF d] k m
    by (cases "framesOf dir k files") (auto simp: Suc_le_eq)
qed

lemma groupByBaseName_distinct:
  assumes "groupByBaseName dir files = Inr g"
  shows "distinct (map fst g)"
proof -
  from assms obtain g0 where a: "addFiles dir [] files = Inr g0"
    and g: "g = fold (\<lambda>b g. finishGroup g b) (objectKeys g0) g0"
    by (auto simp: groupByBaseName_def split: sum.splits)
  show ?thesis unfolding g
    using addFiles_distinct [OF a] by (simp add: fold_finishGroup_distinct)
qed

lemma groupByBaseName_mem_iff:
  assumes "groupByBaseName dir files = Inr g"
  shows "(k, fs) \<in> set g \<longleftrightarrow>
           2 \<le> length (framesOf dir k files) \<and> fs = sort_key frame (framesOf dir k files)"
proof -
  have "(k, fs) \<in> set g \<longleftrightarrow> map_of g k = Some fs"
    using groupByBaseName_distinct [OF assms] by simp
  also have "\<dots> \<longleftrightarrow>
      2 \<le> length (framesOf dir k files) \<and> fs = sort_key frame (framesOf dir k files)"
    unfolding groupByBaseName_map_of [OF assms, of k] by auto
  finally show ?thesis .
qed

lemma groupByBaseName_total:
  assumes "\<forall>f\<in>set files. \<forall>b. baseOf f = Some b \<longrightarrow> b \<notin> set objectPrototypeProps"
  shows "\<exists>g. groupByBaseName dir files = Inr g"
  using addFiles_total [OF assms, of dir "[]"] by (auto simp: groupByBaseName_def)

section \<open>Digit runs and frame numbers\<close>

lemma digitValue_less: "isDigit c \<Longrightarrow> digitValue c < 10"
  by (auto simp: isDigit_def digitValue_def)

lemma digitValue_inj: "isDigit c \<Longrightarrow> isDigit d \<Longrightarrow> digitValue c = digitValue d \<Longrightarrow> c = d"
  by (auto simp: isDigit_def digitValue_def)

lemma digitValue_zero: "isDigit c \<Longrightarrow> digitValue c = 0 \<Longrightarrow> c = CHR ''0''"
  by (auto simp: isDigit_def digitValue_def)

lemma decimal_snoc: "decimal (ds @ [c]) = 10 * decimal ds + digitValue c"
  by (simp add: decimal_def)

lemma foldl_decimal_ge: "n \<le> foldl (\<lambda>n c. 10 * n + digitValue c) n ds"
proof (induction ds arbitrary: n)
  case Nil
  show ?case by simp
next
  case (Cons c ds)
  have "n \<le> 10 * n + digitValue c" by simp
  also have "\<dots> \<le> foldl (\<lambda>n c. 10 * n + digitValue c) (10 * n + digitValue c) ds"
    by (rule Cons.IH)
  finally show ?case by simp
qed

lemma decimal_zero_imp_Nil:
  assumes "list_all isDigit ds" "ds = [] \<or> hd ds \<noteq> CHR ''0''" "decimal ds = 0"
  shows "ds = []"
proof (cases ds)
  case Nil
  then show ?thesis .
next
  case (Cons c cs)
  with assms have c: "isDigit c" "c \<noteq> CHR ''0''" by simp_all
  then have "0 < digitValue c" using digitValue_zero by fastforce
  also have "digitValue c \<le> decimal ds"
    unfolding Cons decimal_def using foldl_decimal_ge [of "digitValue c" cs] by simp
  finally show ?thesis using assms(3) by simp
qed

lemma decimal_Nil: "decimal [] = 0"
  by (simp add: decimal_def)

lemma decimal_inj_nz:
  assumes "list_all isDigit xs" "xs = [] \<or> hd xs \<noteq> CHR ''0''"
      and "list_all isDigit ys" "ys = [] \<or> hd ys \<noteq> CHR ''0''"
      and "decimal xs = decimal ys"
  shows "xs = ys"
  using assms
proof (induction xs arbitrary: ys rule: rev_induct)
  case Nil
  have "decimal ys = 0" using Nil.prems(5) by (simp add: decimal_Nil)
  then have "ys = []" using Nil.prems(3,4) by (rule decimal_zero_imp_Nil [rotated 2])
  then show ?case by simp
next
  case (snoc a xs)
  show ?case
  proof (cases ys rule: rev_cases)
    case Nil
    have "decimal (xs @ [a]) = 0" using snoc.prems(5) Nil by (simp add: decimal_Nil)
    then have "xs @ [a] = []" using snoc.prems(1,2) by (rule decimal_zero_imp_Nil [rotated 2])
    then show ?thesis by simp
  next
    case (snoc ys' b)
    have a: "isDigit a" and b: "isDigit b"
      using snoc.prems(1,3) \<open>ys = ys' @ [b]\<close> by simp_all
    have eq: "10 * decimal xs + digitValue a = 10 * decimal ys' + digitValue b"
      using snoc.prems(5) \<open>ys = ys' @ [b]\<close> by (simp add: decimal_snoc)
    have la: "digitValue a < 10" and lb: "digitValue b < 10"
      using a b by (simp_all add: digitValue_less)
    from eq la lb have dv: "digitValue a = digitValue b" by presburger
    from eq dv have de: "decimal xs = decimal ys'" by simp
    have ab: "a = b" using a b dv by (rule digitValue_inj)
    have nx: "xs = [] \<or> hd xs \<noteq> CHR ''0''"
      using snoc.prems(2) by (cases xs) simp_all
    have ny: "ys' = [] \<or> hd ys' \<noteq> CHR ''0''"
      using snoc.prems(4) \<open>ys = ys' @ [b]\<close> by (cases ys') simp_all
    have dx: "list_all isDigit xs" using snoc.prems(1) by simp
    have dy: "list_all isDigit ys'" using snoc.prems(3) \<open>ys = ys' @ [b]\<close> by simp
    have "xs = ys'" using dx nx dy ny de by (rule snoc.IH)
    with ab \<open>ys = ys' @ [b]\<close> show ?thesis by simp
  qed
qed

lemma decimal_zero_string: "decimal ''0'' = 0"
  by (simp add: decimal_def digitValue_def)

lemma decimal_inj_canonical:
  assumes "list_all isDigit xs" "canonicalDigits xs"
      and "list_all isDigit ys" "canonicalDigits ys"
      and "decimal xs = decimal ys"
  shows "xs = ys"
proof (cases "xs = ''0''")
  case True
  then have z: "decimal ys = 0" using assms(5) by (simp add: decimal_zero_string)
  show ?thesis
  proof (cases "ys = ''0''")
    case True
    with \<open>xs = ''0''\<close> show ?thesis by simp
  next
    case False
    with assms(4) have n: "ys = [] \<or> hd ys \<noteq> CHR ''0''" and ne: "ys \<noteq> []"
      by (simp_all add: canonicalDigits_def)
    from assms(3) n z have "ys = []" by (rule decimal_zero_imp_Nil)
    with ne show ?thesis by simp
  qed
next
  case False
  with assms(2) have nx: "xs = [] \<or> hd xs \<noteq> CHR ''0''" and nex: "xs \<noteq> []"
    by (simp_all add: canonicalDigits_def)
  show ?thesis
  proof (cases "ys = ''0''")
    case True
    then have "decimal xs = 0" using assms(5) by (simp add: decimal_zero_string)
    with assms(1) nx have "xs = []" by (rule decimal_zero_imp_Nil)
    with nex show ?thesis by simp
  next
    case False
    with assms(4) have ny: "ys = [] \<or> hd ys \<noteq> CHR ''0''"
      by (simp add: canonicalDigits_def)
    from assms(1) nx assms(3) ny assms(5) show ?thesis by (rule decimal_inj_nz)
  qed
qed

lemma decimal_inj_same_length:
  assumes "length xs = length ys" "list_all isDigit xs" "list_all isDigit ys"
      and "decimal xs = decimal ys"
  shows "xs = ys"
  using assms
proof (induction xs arbitrary: ys rule: rev_induct)
  case Nil
  then show ?case by simp
next
  case (snoc a xs)
  from snoc.prems(1) obtain ys' b where ys: "ys = ys' @ [b]"
    by (cases ys rule: rev_cases) simp_all
  have a: "isDigit a" and b: "isDigit b" using snoc.prems(2,3) ys by simp_all
  have eq: "10 * decimal xs + digitValue a = 10 * decimal ys' + digitValue b"
    using snoc.prems(4) ys by (simp add: decimal_snoc)
  have la: "digitValue a < 10" and lb: "digitValue b < 10"
    using a b by (simp_all add: digitValue_less)
  from eq la lb have dv: "digitValue a = digitValue b" by presburger
  from eq dv have de: "decimal xs = decimal ys'" by simp
  have ab: "a = b" using a b dv by (rule digitValue_inj)
  have "xs = ys'"
    using snoc.prems(1,2,3) ys de by (intro snoc.IH) simp_all
  with ab ys show ?case by simp
qed

lemma toNumber_exact: "n < 2 ^ 53 \<Longrightarrow> toNumber n = enat n"
  unfolding toNumber_def by (rule if_P)

lemma framesOf_entriesOf: "framesOf dir k files = map (mkFrame dir) (entriesOf k files)"
  by (simp add: framesOf_def entriesOf_def)

lemma entry_shape:
  assumes "baseOf f = Some k"
  shows "matchFile f = Some (k, digitsOf f) \<and> f = k @ ''_'' @ digitsOf f @ ''.png''
         \<and> list_all isDigit (digitsOf f)"
proof -
  from assms obtain ds where m: "matchFile f = Some (k, ds)" by (auto simp: baseOf_def)
  from matchFile_SomeD [OF m] m show ?thesis by (simp add: digitsOf_def)
qed

lemma frame_mkFrame:
  assumes "baseOf f = Some k"
  shows "frame (mkFrame dir f) = parseInt (digitsOf f)"
  using entry_shape [OF assms] by (simp add: mkFrame_def)

lemma frames_of_entries:
  "map frame (framesOf dir k files) = map (\<lambda>f. parseInt (digitsOf f)) (entriesOf k files)"
proof -
  have "map (\<lambda>f. frame (mkFrame dir f)) (entriesOf k files)
        = map (\<lambda>f. parseInt (digitsOf f)) (entriesOf k files)"
    by (rule map_cong [OF refl]) (simp add: entriesOf_def frame_mkFrame)
  then show ?thesis by (simp add: framesOf_entriesOf comp_def)
qed

lemma plainFrameNumber_entry:
  assumes "baseOf f = Some k"
  shows "plainFrameNumber f \<longleftrightarrow> canonicalDigits (digitsOf f) \<and> decimal (digitsOf f) < 2 ^ 53"
  using entry_shape [OF assms] by (simp add: plainFrameNumber_def)

lemma same_number_same_entry:
  assumes "baseOf f1 = Some k" "baseOf f2 = Some k"
      and "decimal (digitsOf f1) < 2 ^ 53" "decimal (digitsOf f2) < 2 ^ 53"
      and "canonicalDigits (digitsOf f1) \<and> canonicalDigits (digitsOf f2)
           \<or> length (digitsOf f1) = length (digitsOf f2)"
      and "parseInt (digitsOf f1) = parseInt (digitsOf f2)"
  shows "f1 = f2"
proof -
  note c1 = entry_shape [OF assms(1)] and c2 = entry_shape [OF assms(2)]
  from assms(6) have "enat (decimal (digitsOf f1)) = enat (decimal (digitsOf f2))"
    unfolding parseInt_def toNumber_exact [OF assms(3)] toNumber_exact [OF assms(4)] .
  then have e: "decimal (digitsOf f1) = decimal (digitsOf f2)" by simp
  from assms(5) have "digitsOf f1 = digitsOf f2"
  proof
    assume "canonicalDigits (digitsOf f1) \<and> canonicalDigits (digitsOf f2)"
    with c1 c2 e show ?thesis by (intro decimal_inj_canonical) simp_all
  next
    assume "length (digitsOf f1) = length (digitsOf f2)"
    with c1 c2 e show ?thesis by (intro decimal_inj_same_length) simp_all
  qed
  with c1 c2 show ?thesis by metis
qed

lemma entries_distinct_numbers:
  assumes "distinct (entriesOf k files)"
      and "list_all plainFrameNumber (entriesOf k files)
           \<or> list_all (paddedFrameNumber w) (entriesOf k files)"
  shows "distinct (map (\<lambda>f. parseInt (digitsOf f)) (entriesOf k files))"
  unfolding distinct_map
proof
  show "distinct (entriesOf k files)" by (rule assms(1))
  show "inj_on (\<lambda>f. parseInt (digitsOf f)) (set (entriesOf k files))"
  proof (rule inj_onI)
    fix x y
    assume x: "x \<in> set (entriesOf k files)" and y: "y \<in> set (entriesOf k files)"
       and e: "parseInt (digitsOf x) = parseInt (digitsOf y)"
    from x y have b: "baseOf x = Some k" "baseOf y = Some k"
      by (simp_all add: entriesOf_def)
    from assms(2) show "x = y"
    proof
      assume "list_all plainFrameNumber (entriesOf k files)"
      with x y have "plainFrameNumber x" "plainFrameNumber y" by (simp_all add: list_all_iff)
      then have "canonicalDigits (digitsOf x) \<and> decimal (digitsOf x) < 2 ^ 53"
        and "canonicalDigits (digitsOf y) \<and> decimal (digitsOf y) < 2 ^ 53"
        using b by (simp_all add: plainFrameNumber_entry)
      then show ?thesis using b e by (intro same_number_same_entry [of x k y]) simp_all
    next
      assume "list_all (paddedFrameNumber w) (entriesOf k files)"
      with x y have "paddedFrameNumber w x" "paddedFrameNumber w y"
        by (simp_all add: list_all_iff)
      then show ?thesis using b e
        by (intro same_number_same_entry [of x k y]) (simp_all add: paddedFrameNumber_def)
    qed
  qed
qed

lemma entriesOf_whole_listing:
  assumes "distinct files" "list_all plainFrameNumber files"
  shows "distinct (entriesOf k files) \<and> list_all plainFrameNumber (entriesOf k files)"
  using assms by (simp add: entriesOf_def list_all_iff)

lemma distinct_map_sort_key:
  "distinct (map f (sort_key g xs)) \<longleftrightarrow> distinct (map f xs)"
  by (simp add: distinct_map)

section \<open>Claims about the grouping\<close>

lemmas grouping_defs = groupImagesByBaseName_def groupTransparentImagesByBaseName_def
  groupByBaseName_def addFile_def extname_def
  matchFile_def stripSuffix_def isDigit_def parseInt_def toNumber_def
  decimal_def digitValue_def getProp_def objectPrototypeProps_def pathJoin_def texturesDir_def
  transparentDir_def objectKeys_def isArrayIndex_def finishGroup_def

lemma groupByBaseName_member:
  assumes "groupByBaseName dir files = Inr g" "(k, fs) \<in> set g" "fr \<in> set fs"
  shows "\<exists>ds. matchFile (file fr) = Some (k, ds) \<and> frame fr = parseInt ds
              \<and> path fr = pathJoin dir (file fr) \<and> file fr \<in> set files"
proof -
  from assms(1,2) have "fs = sort_key frame (framesOf dir k files)"
    by (simp add: groupByBaseName_mem_iff)
  with assms(3) have "fr \<in> set (framesOf dir k files)" by simp
  then obtain f where f: "f \<in> set files" "baseOf f = Some k" "fr = mkFrame dir f"
    by (auto simp: framesOf_def)
  from f(2) obtain ds where "matchFile f = Some (k, ds)" by (auto simp: baseOf_def)
  with f show ?thesis by (simp add: mkFrame_def)
qed

lemma groupByBaseName_sorted:
  assumes "groupByBaseName dir files = Inr g" "(k, fs) \<in> set g"
  shows "sorted (map frame fs) \<and> 2 \<le> length fs"
proof -
  from assms have "fs = sort_key frame (framesOf dir k files)"
    and "2 \<le> length (framesOf dir k files)"
    by (simp_all add: groupByBaseName_mem_iff)
  then show ?thesis by simp
qed

text \<open>
  C1 (the code departs from the claim). The claim: for every directory listing the
  grouping returns, for each base name, its frames sorted ascending by frame number, and
  no group of fewer than two frames. The lemmas \<open>groupByBaseName_sorted\<close> and
  \<open>groupByBaseName_mem_iff\<close> show this for every listing on which the function returns,
  and \<open>groupByBaseName_total\<close> shows that it returns when no base name is a property
  inherited from \<^verbatim>\<open>Object.prototype\<close>. On a listing with such a base name the function
  throws instead of returning the group: two frames named \<^verbatim>\<open>constructor\<close> end in a
  TypeError, in both scripts.
\<close>

theorem grouping_throws_on_inherited_name:
  "groupImagesByBaseName [''constructor_0.png'', ''constructor_1.png'']
     = Inl (TypeError ''groups[baseName].push is not a function'')
   \<and> groupTransparentImagesByBaseName [''constructor_0.png'', ''constructor_1.png'']
     = Inl (TypeError ''groups[baseName].push is not a function'')"
  by (simp add: grouping_defs)

text \<open>
  C4, as stated: within every group the frame numbers are unique and strictly increasing.
  It fails: \<^verbatim>\<open>a_1.png\<close> and \<^verbatim>\<open>a_01.png\<close> are two entries of one group with the same frame
  number 1.
\<close>

theorem frame_index_repeated:
  "groupImagesByBaseName [''a_1.png'', ''a_01.png''] =
     Inr [(''a'', [\<lparr>file = ''a_1.png'', frame = 1, path = ''converted/textures/a_1.png''\<rparr>,
                   \<lparr>file = ''a_01.png'', frame = 1, path = ''converted/textures/a_01.png''\<rparr>])]
   \<and> \<not> distinct (map frame
          [\<lparr>file = ''a_1.png'', frame = 1, path = ''converted/textures/a_1.png''\<rparr>,
           \<lparr>file = ''a_01.png'', frame = 1, path = ''converted/textures/a_01.png''\<rparr>])
   \<and> \<not> sorted_wrt (<) (map frame
          [\<lparr>file = ''a_1.png'', frame = 1, path = ''converted/textures/a_1.png''\<rparr>,
           \<lparr>file = ''a_01.png'', frame = 1, path = ''converted/textures/a_01.png''\<rparr>])"
  by (simp add: grouping_defs one_enat_def)

text \<open>
  C4, amended: within every group the frame numbers are ascending (each is at most the
  next). They are unique, and then strictly increasing, exactly when no two entries of
  the listing that belong to the group have digit runs that \<^verbatim>\<open>parseInt\<close> turns into the same
  number. This is so whenever the entries of the group are different names whose digit
  runs denote numbers below \<open>2^53\<close> and are either all written without a leading zero or
  all of one length (numbers padded with zeros to one width), whatever the names of the
  other groups; in particular when the whole listing repeats no name and has only digit
  runs without a leading zero below \<open>2^53\<close>.
\<close>

theorem group_frames_ascending:
  assumes "groupByBaseName dir files = Inr g" and "(k, fs) \<in> set g"
  shows "sorted (map frame fs)
         \<and> (sorted_wrt (<) (map frame fs) \<longleftrightarrow> distinct (map frame fs))
         \<and> (distinct (map frame fs)
              \<longleftrightarrow> distinct (map (\<lambda>f. parseInt (digitsOf f)) (entriesOf k files)))
         \<and> (distinct (entriesOf k files) \<and> list_all plainFrameNumber (entriesOf k files)
              \<longrightarrow> sorted_wrt (<) (map frame fs) \<and> distinct (map frame fs))
         \<and> (distinct (entriesOf k files) \<and> list_all (paddedFrameNumber w) (entriesOf k files)
              \<longrightarrow> sorted_wrt (<) (map frame fs) \<and> distinct (map frame fs))
         \<and> (distinct files \<and> list_all plainFrameNumber files
              \<longrightarrow> sorted_wrt (<) (map frame fs) \<and> distinct (map frame fs))"
proof -
  have fs: "fs = sort_key frame (framesOf dir k files)"
    using assms by (simp add: groupByBaseName_mem_iff)
  have s: "sorted (map frame fs)" unfolding fs by simp
  have st: "sorted_wrt (<) (map frame fs) \<longleftrightarrow> distinct (map frame fs)"
    using s by (simp add: strict_sorted_iff)
  have d: "distinct (map frame fs)
           \<longleftrightarrow> distinct (map (\<lambda>f. parseInt (digitsOf f)) (entriesOf k files))"
    unfolding fs distinct_map_sort_key frames_of_entries ..
  have p: "distinct (map frame fs)"
    if "distinct (entriesOf k files)" "list_all plainFrameNumber (entriesOf k files)"
    unfolding d using that by (intro entries_distinct_numbers) simp_all
  have q: "distinct (map frame fs)"
    if "distinct (entriesOf k files)" "list_all (paddedFrameNumber w) (entriesOf k files)"
    unfolding d using that by (intro entries_distinct_numbers [where w = w]) simp_all
  have r: "distinct (map frame fs)" if "distinct files" "list_all plainFrameNumber files"
    using p entriesOf_whole_listing [OF that, of k] by simp
  from s st d p q r show ?thesis by blast
qed

theorem group_frames_ascending_witness:
  "groupByBaseName texturesDir [''a_2.png'', ''b_01.png'', ''a_1.png''] =
     Inr [(''a'', [\<lparr>file = ''a_1.png'', frame = 1, path = ''converted/textures/a_1.png''\<rparr>,
                   \<lparr>file = ''a_2.png'', frame = 2, path = ''converted/textures/a_2.png''\<rparr>])]
   \<and> distinct (entriesOf ''a'' [''a_2.png'', ''b_01.png'', ''a_1.png''])
   \<and> list_all plainFrameNumber (entriesOf ''a'' [''a_2.png'', ''b_01.png'', ''a_1.png''])
   \<and> \<not> list_all plainFrameNumber [''a_2.png'', ''b_01.png'', ''a_1.png'']
   \<and> sorted_wrt (<) (map frame
         [\<lparr>file = ''a_1.png'', frame = 1, path = ''converted/textures/a_1.png''\<rparr>,
          \<lparr>file = ''a_2.png'', frame = 2, path = ''converted/textures/a_2.png''\<rparr>])
   \<and> groupByBaseName texturesDir [''door_01.png'', ''door_00.png''] =
       Inr [(''door'',
             [\<lparr>file = ''door_00.png'', frame = 0, path = ''converted/textures/door_00.png''\<rparr>,
              \<lparr>file = ''door_01.png'', frame = 1, path = ''converted/textures/door_01.png''\<rparr>])]
   \<and> distinct (entriesOf ''door'' [''door_01.png'', ''door_00.png''])
   \<and> list_all (paddedFrameNumber 2) (entriesOf ''door'' [''door_01.png'', ''door_00.png''])
   \<and> sorted_wrt (<) (map frame
         [\<lparr>file = ''door_00.png'', frame = 0, path = ''converted/textures/door_00.png''\<rparr>,
          \<lparr>file = ''door_01.png'', frame = 1, path = ''converted/textures/door_01.png''\<rparr>])
   \<and> distinct [''a_2.png'', ''a_1.png'']
   \<and> list_all plainFrameNumber [''a_2.png'', ''a_1.png'']
   \<and> groupByBaseName texturesDir [''a_2.png'', ''a_1.png''] =
       Inr [(''a'', [\<lparr>file = ''a_1.png'', frame = 1, path = ''converted/textures/a_1.png''\<rparr>,
                     \<lparr>file = ''a_2.png'', frame = 2, path = ''converted/textures/a_2.png''\<rparr>])]"
proof -
  let ?a = "[\<lparr>file = ''a_1.png'', frame = 1, path = ''converted/textures/a_1.png''\<rparr>,
             \<lparr>file = ''a_2.png'', frame = 2, path = ''converted/textures/a_2.png''\<rparr>]"
  let ?d = "[\<lparr>file = ''door_00.png'', frame = 0, path = ''converted/textures/door_00.png''\<rparr>,
             \<lparr>file = ''door_01.png'', frame = 1, path = ''converted/textures/door_01.png''\<rparr>]"
  note entry_defs = entriesOf_def baseOf_def digitsOf_def plainFrameNumber_def
    paddedFrameNumber_def canonicalDigits_def matchFile_def stripSuffix_def isDigit_def
    decimal_def digitValue_def
  have g1: "groupByBaseName texturesDir [''a_2.png'', ''b_01.png'', ''a_1.png'']
            = Inr [(''a'', ?a)]"
    by (simp add: grouping_defs one_enat_def numeral_eq_enat)
  have g2: "groupByBaseName texturesDir [''door_01.png'', ''door_00.png''] = Inr [(''door'', ?d)]"
    by (simp add: grouping_defs one_enat_def zero_enat_def)
  have g3: "groupByBaseName texturesDir [''a_2.png'', ''a_1.png''] = Inr [(''a'', ?a)]"
    by (simp add: grouping_defs one_enat_def numeral_eq_enat)
  have m1: "(''a'', ?a) \<in> set [(''a'', ?a)]" by simp
  have m2: "(''door'', ?d) \<in> set [(''door'', ?d)]" by simp
  have e1: "distinct (entriesOf ''a'' [''a_2.png'', ''b_01.png'', ''a_1.png''])"
    by (simp add: entry_defs)
  have p1: "list_all plainFrameNumber (entriesOf ''a'' [''a_2.png'', ''b_01.png'', ''a_1.png''])"
    by (simp add: entry_defs)
  have n1: "\<not> list_all plainFrameNumber [''a_2.png'', ''b_01.png'', ''a_1.png'']"
    by (simp add: entry_defs)
  have e2: "distinct (entriesOf ''door'' [''door_01.png'', ''door_00.png''])"
    by (simp add: entry_defs)
  have p2: "list_all (paddedFrameNumber 2) (entriesOf ''door'' [''door_01.png'', ''door_00.png''])"
    by (simp add: entry_defs)
  have e3: "distinct [''a_2.png'', ''a_1.png'']" by simp
  have p3: "list_all plainFrameNumber [''a_2.png'', ''a_1.png'']"
    by (simp add: entry_defs)
  have s1: "sorted_wrt (<) (map frame ?a)"
    using group_frames_ascending [OF g1 m1, THEN conjunct2, THEN conjunct2, THEN conjunct2,
            THEN conjunct1] e1 p1
    by blast
  have s2: "sorted_wrt (<) (map frame ?d)"
    using group_frames_ascending [OF g2 m2, where w = 2, THEN conjunct2, THEN conjunct2,
            THEN conjunct2, THEN conjunct2, THEN conjunct1] e2 p2
    by blast
  have s3: "sorted_wrt (<) (map frame ?a)"
    using group_frames_ascending [OF g3 m1, THEN conjunct2, THEN conjunct2, THEN conjunct2,
            THEN conjunct2, THEN conjunct2] e3 p3
    by blast
  from g1 e1 p1 n1 s1 g2 e2 p2 s2 e3 p3 g3 show ?thesis by blast
qed

text \<open>
  C6, as stated: every name whose stem ends in several underscore-digit groups is bound
  to the last digit run, and grouped under all that is before it. It fails for a name
  with a line terminator before the groups, which the dot of the pattern does not match:
  \<^verbatim>\<open>a\<close>, a line feed, \<^verbatim>\<open>b_12_3.png\<close> matches nothing, and neither does a name with U+2029 in
  that place; two such frames make no group.
\<close>

theorem line_terminator_name_in_no_group:
  "matchFile (''a'' @ [CHR 0x0A] @ ''b_12_3.png'') = None
   \<and> matchFile (''r'' @ [CHR 0xE2, CHR 0x80, CHR 0xA9] @ ''m_12_3.png'') = None
   \<and> groupImagesByBaseName [''a'' @ [CHR 0x0A] @ ''b_12_3.png'', ''a'' @ [CHR 0x0A] @ ''b_12_4.png'']
       = Inr []
   \<and> groupTransparentImagesByBaseName
       [''a'' @ [CHR 0x0A] @ ''b_12_3.png'', ''a'' @ [CHR 0x0A] @ ''b_12_4.png''] = Inr []"
  by (simp add: grouping_defs)

text \<open>
  C6, amended: a name whose stem ends in several underscore-digit groups, with no line
  terminator (U+000A, U+000D, U+2028, U+2029) before them, binds the frame number to the
  last digit run and the base name to all that is before its underscore; with a line
  terminator there it matches nothing. In every result of the grouping an entry of that
  name stands in the group of that base name, with the last digit run as its frame
  number, and it is there whenever the listing has it and at least two entries of that
  base name. \<^verbatim>\<open>room_12_3.png\<close> has base \<^verbatim>\<open>room_12\<close> and frame 3.
\<close>

theorem last_digit_run_is_frame:
  assumes "d1 \<noteq> []" and "list_all isDigit d1" and "d2 \<noteq> []" and "list_all isDigit d2"
  shows "matchFile (b @ ''_'' @ d1 @ ''_'' @ d2 @ ''.png'')
           = (if hasLineTerminator b then None else Some (b @ ''_'' @ d1, d2))
         \<and> (groupByBaseName dir files = Inr g \<and> (k, fs) \<in> set g \<and> fr \<in> set fs
              \<and> file fr = b @ ''_'' @ d1 @ ''_'' @ d2 @ ''.png''
             \<longrightarrow> k = b @ ''_'' @ d1 \<and> frame fr = parseInt d2 \<and> \<not> hasLineTerminator b)
         \<and> (groupByBaseName dir files = Inr g \<and> \<not> hasLineTerminator b
              \<and> b @ ''_'' @ d1 @ ''_'' @ d2 @ ''.png'' \<in> set files
              \<and> 2 \<le> length (entriesOf (b @ ''_'' @ d1) files)
             \<longrightarrow> (b @ ''_'' @ d1, sort_key frame (framesOf dir (b @ ''_'' @ d1) files)) \<in> set g
                 \<and> mkFrame dir (b @ ''_'' @ d1 @ ''_'' @ d2 @ ''.png'')
                     \<in> set (framesOf dir (b @ ''_'' @ d1) files)
                 \<and> frame (mkFrame dir (b @ ''_'' @ d1 @ ''_'' @ d2 @ ''.png'')) = parseInt d2)"
proof -
  let ?B = "b @ ''_'' @ d1"
  let ?f = "b @ ''_'' @ d1 @ ''_'' @ d2 @ ''.png''"
  have pl: "\<forall>c\<in>set (''_'' @ d1). isDigit c \<or> c = CHR ''_''"
    using assms(2) by (simp add: list_all_iff)
  have lt: "hasLineTerminator ?B = hasLineTerminator b"
    using hasLineTerminator_append_plain [OF pl] .
  have "matchFile (?B @ ''_'' @ d2 @ ''.png'')
        = (if ?B \<noteq> [] \<and> \<not> hasLineTerminator ?B then Some (?B, d2) else None)"
    using assms(3,4) by (rule matchFile_shape)
  then have m: "matchFile ?f = (if hasLineTerminator b then None else Some (?B, d2))"
    unfolding lt by simp
  have a: "k = ?B \<and> frame fr = parseInt d2 \<and> \<not> hasLineTerminator b"
    if h: "groupByBaseName dir files = Inr g" "(k, fs) \<in> set g" "fr \<in> set fs"
       and f: "file fr = ?f"
  proof -
    from groupByBaseName_member [OF h] obtain ds where
      ds: "matchFile (file fr) = Some (k, ds)" "frame fr = parseInt ds" by blast
    from ds(1) have "(if hasLineTerminator b then None else Some (?B, d2)) = Some (k, ds)"
      unfolding f m .
    with ds(2) show ?thesis by (simp split: if_splits)
  qed
  have c: "(?B, sort_key frame (framesOf dir ?B files)) \<in> set g
           \<and> mkFrame dir ?f \<in> set (framesOf dir ?B files)
           \<and> frame (mkFrame dir ?f) = parseInt d2"
    if h: "groupByBaseName dir files = Inr g" "\<not> hasLineTerminator b" "?f \<in> set files"
          "2 \<le> length (entriesOf ?B files)"
  proof -
    have bo: "baseOf ?f = Some ?B" using m h(2) by (simp add: baseOf_def)
    have "2 \<le> length (framesOf dir ?B files)" using h(4) by (simp add: framesOf_entriesOf)
    then have "(?B, sort_key frame (framesOf dir ?B files)) \<in> set g"
      using h(1) by (simp add: groupByBaseName_mem_iff)
    moreover have "mkFrame dir ?f \<in> set (framesOf dir ?B files)"
      using h(3) bo by (simp add: framesOf_def)
    moreover have "frame (mkFrame dir ?f) = parseInt d2"
      using m h(2) by (simp add: mkFrame_def)
    ultimately show ?thesis by blast
  qed
  from m a c show ?thesis by blast
qed

theorem last_digit_run_is_frame_witness:
  "matchFile ''room_12_3.png'' = Some (''room_12'', ''3'')
   \<and> parseInt ''3'' = 3
   \<and> \<not> hasLineTerminator ''room''
   \<and> 2 \<le> length (entriesOf ''room_12'' [''room_12_3.png'', ''room_12_4.png''])
   \<and> groupImagesByBaseName [''room_12_3.png'', ''room_12_4.png''] =
       Inr [(''room_12'',
             [\<lparr>file = ''room_12_3.png'', frame = 3, path = ''converted/textures/room_12_3.png''\<rparr>,
              \<lparr>file = ''room_12_4.png'', frame = 4, path = ''converted/textures/room_12_4.png''\<rparr>])]
   \<and> groupTransparentImagesByBaseName [''room_12_3.png'', ''room_12_4.png''] =
       Inr [(''room_12'',
             [\<lparr>file = ''room_12_3.png'', frame = 3, path = ''converted/transparent/room_12_3.png''\<rparr>,
              \<lparr>file = ''room_12_4.png'', frame = 4, path = ''converted/transparent/room_12_4.png''\<rparr>])]
   \<and> mkFrame texturesDir ''room_12_3.png''
       \<in> set (framesOf texturesDir ''room_12'' [''room_12_3.png'', ''room_12_4.png''])
   \<and> frame (mkFrame texturesDir ''room_12_3.png'') = 3"
proof -
  let ?files = "[''room_12_3.png'', ''room_12_4.png'']"
  let ?fr = "\<lparr>file = ''room_12_3.png'', frame = 3, path = ''converted/textures/room_12_3.png''\<rparr>"
  let ?fs = "[?fr,
              \<lparr>file = ''room_12_4.png'', frame = 4, path = ''converted/textures/room_12_4.png''\<rparr>]"
  have a: "''12'' \<noteq> []" "list_all isDigit ''12''" "''3'' \<noteq> []" "list_all isDigit ''3''"
    by (simp_all add: isDigit_def)
  have n: "\<not> hasLineTerminator ''room''" by simp
  note th = last_digit_run_is_frame [OF a, where b = "''room''" and dir = texturesDir
              and files = ?files and g = "[(''room_12'', ?fs)]" and k = "''room_12''"
              and fs = ?fs and fr = ?fr]
  have m: "matchFile ''room_12_3.png'' = Some (''room_12'', ''3'')"
    using th [THEN conjunct1] n by simp
  have p: "parseInt ''3'' = 3"
    by (simp add: parseInt_def toNumber_def decimal_def digitValue_def numeral_eq_enat)
  have g: "groupByBaseName texturesDir ?files = Inr [(''room_12'', ?fs)]"
    by (simp add: grouping_defs numeral_eq_enat)
  have g': "groupTransparentImagesByBaseName ?files =
       Inr [(''room_12'',
             [\<lparr>file = ''room_12_3.png'', frame = 3, path = ''converted/transparent/room_12_3.png''\<rparr>,
              \<lparr>file = ''room_12_4.png'', frame = 4, path = ''converted/transparent/room_12_4.png''\<rparr>])]"
    by (simp add: grouping_defs numeral_eq_enat)
  have e: "2 \<le> length (entriesOf ''room_12'' ?files)"
    by (simp add: entriesOf_def baseOf_def matchFile_def stripSuffix_def isDigit_def)
  have k: "''room_12'' = ''room'' @ ''_'' @ ''12'' \<and> frame ?fr = parseInt ''3''
           \<and> \<not> hasLineTerminator ''room''"
    using th [THEN conjunct2, THEN conjunct1] g by simp
  have c: "mkFrame texturesDir ''room_12_3.png'' \<in> set (framesOf texturesDir ''room_12'' ?files)
           \<and> frame (mkFrame texturesDir ''room_12_3.png'') = parseInt ''3''"
    using th [THEN conjunct2, THEN conjunct2] g n e by simp
  from m p n e g g' c show ?thesis
    by (simp add: groupImagesByBaseName_def)
qed

section \<open>Claims about the probe\<close>

lemmas system_defs = emptySystem_def freshProcess_def noTools_def exec_def existsSync_def
  readdirSync_def writeFileSync_def unlinkSync_def mkdirSync_def cleanUp_def pathJoin_def
  pathResolve_def quoted_def

lemma exec_log: "exec sh c s = (ok, s') \<Longrightarrow> execLog s' = execLog s @ [c]"
  by (auto simp: exec_def split: prod.splits)

lemma exec_imageMagickPath: "exec sh c s = (ok, s') \<Longrightarrow> imageMagickPath s' = imageMagickPath s"
  by (auto simp: exec_def split: prod.splits)

lemma exec_MAGICK_PATH: "exec sh c s = (ok, s') \<Longrightarrow> MAGICK_PATH s' = MAGICK_PATH s"
  by (auto simp: exec_def split: prod.splits)

lemma searchCommonPaths_find:
  "searchCommonPaths ps pr s =
     (case find (\<lambda>p. existsSync p (sys s)) ps of
        Some p \<Rightarrow> (True, resolve (Some ''imagemagick-path'') pr, s\<lparr>imageMagickPath := Some (quoted p)\<rparr>)
      | None \<Rightarrow> (False, pr, s))"
  by (induction ps) simp_all

lemma probeCommonPathsThenFFmpeg_eq:
  assumes "exec sh ''ffmpeg -version'' s2 = (ok3, s3)"
  shows "probeCommonPathsThenFFmpeg sh s2 =
     (case find (\<lambda>p. existsSync p (sys s2)) commonPaths of
        Some p \<Rightarrow> (Resolved (Some ''imagemagick-path''), s2\<lparr>imageMagickPath := Some (quoted p)\<rparr>)
      | None \<Rightarrow> if ok3 then (Resolved (Some ''ffmpeg''), s3) else (Resolved None, s3))"
  using assms
  by (simp add: probeCommonPathsThenFFmpeg_def searchCommonPaths_find resolve_def
           split: option.splits)

lemma checkDependencies_eq:
  assumes r1: "exec sh ''magick -version'' s = (ok1, s1)"
      and r2: "exec sh ''convert -version'' s1 = (ok2, s2)"
      and r3: "exec sh ''ffmpeg -version'' s2 = (ok3, s3)"
  shows "checkDependencies sh s =
     (if ok1 then (Resolved (Some ''imagemagick''), s1)
      else if ok2 then (Resolved (Some ''imagemagick-convert''), s2)
      else (case resolvedPath s2 of
              Some p \<Rightarrow>
                (Resolved (Some ''imagemagick-path''), s2\<lparr>imageMagickPath := Some (quoted p)\<rparr>)
            | None \<Rightarrow> if ok3 then (Resolved (Some ''ffmpeg''), s3) else (Resolved None, s3)))"
  unfolding checkDependencies_def r1
  by (simp add: r2 probeCommonPathsThenFFmpeg_eq [OF r3] resolvedPath_def resolve_def
           split: option.splits)

lemma magickCommand_quoted: "magickCommand (s\<lparr>imageMagickPath := Some (quoted p)\<rparr>) = quoted p"
  by (simp add: magickCommand_def quoted_def)

lemma magickCommand_None: "imageMagickPath s = None \<Longrightarrow> magickCommand s = ''magick''"
  by (simp add: magickCommand_def)

lemma checkDependencies_values:
  "\<exists>v s'. checkDependencies sh s = (Resolved v, s')
          \<and> v \<in> {Some ''imagemagick'', Some ''imagemagick-convert'', Some ''imagemagick-path'',
                 Some ''ffmpeg'', None}"
proof -
  obtain ok1 s1 where r1: "exec sh ''magick -version'' s = (ok1, s1)" by fastforce
  obtain ok2 s2 where r2: "exec sh ''convert -version'' s1 = (ok2, s2)" by fastforce
  obtain ok3 s3 where r3: "exec sh ''ffmpeg -version'' s2 = (ok3, s3)" by fastforce
  show ?thesis
    unfolding checkDependencies_eq [OF r1 r2 r3]
    by (cases "resolvedPath s2") auto
qed

lemma checkDependencies_truthy:
  assumes "checkDependencies sh s = (Resolved v, s')"
  shows "truthy v \<longleftrightarrow> v \<noteq> None"
proof -
  from checkDependencies_values [of sh s] assms
  have "v \<in> {Some ''imagemagick'', Some ''imagemagick-convert'', Some ''imagemagick-path'',
              Some ''ffmpeg'', None}"
    by auto
  then show ?thesis by (auto simp: truthy_def)
qed

text \<open>
  C3: the probe tries, in this order and stopping at the first success,
  \<^verbatim>\<open>magick -version\<close>, \<^verbatim>\<open>convert -version\<close>, the path of \<^verbatim>\<open>MAGICK_PATH\<close> if it exists, the
  first of the common installation paths that exists, and \<^verbatim>\<open>ffmpeg -version\<close>; when all
  fail it resolves to \<^verbatim>\<open>null\<close>. The log of commands shows which queries were run. After
  a success of the third or fourth step the path, in double quotes, is stored in
  \<^verbatim>\<open>global.imageMagickPath\<close>, and a later call of the primary backend takes its command
  name from there.
\<close>

theorem checkDependencies_probe_order:
  assumes r1: "exec sh ''magick -version'' s = (ok1, s1)"
      and r2: "exec sh ''convert -version'' s1 = (ok2, s2)"
      and r3: "exec sh ''ffmpeg -version'' s2 = (ok3, s3)"
  shows "checkDependencies sh s =
           (if ok1 then (Resolved (Some ''imagemagick''), s1)
            else if ok2 then (Resolved (Some ''imagemagick-convert''), s2)
            else (case resolvedPath s2 of
                    Some p \<Rightarrow>
                      (Resolved (Some ''imagemagick-path''),
                       s2\<lparr>imageMagickPath := Some (quoted p)\<rparr>)
                  | None \<Rightarrow>
                      if ok3 then (Resolved (Some ''ffmpeg''), s3) else (Resolved None, s3)))
         \<and> execLog (snd (checkDependencies sh s)) =
             execLog s @
               (if ok1 then [''magick -version'']
                else if ok2 \<or> resolvedPath s2 \<noteq> None
                     then [''magick -version'', ''convert -version'']
                     else [''magick -version'', ''convert -version'', ''ffmpeg -version''])
         \<and> (\<not> ok1 \<and> \<not> ok2 \<longrightarrow>
              (\<forall>p. resolvedPath s2 = Some p \<longrightarrow>
                 imageMagickPath (snd (checkDependencies sh s)) = Some (quoted p)
                 \<and> magickCommand (snd (checkDependencies sh s)) = quoted p))"
proof -
  note eq = checkDependencies_eq [OF r1 r2 r3]
  note l1 = exec_log [OF r1] and l2 = exec_log [OF r2] and l3 = exec_log [OF r3]
  have log: "execLog (snd (checkDependencies sh s)) =
             execLog s @
               (if ok1 then [''magick -version'']
                else if ok2 \<or> resolvedPath s2 \<noteq> None
                     then [''magick -version'', ''convert -version'']
                     else [''magick -version'', ''convert -version'', ''ffmpeg -version''])"
    unfolding eq using l1 l2 l3 by (auto split: option.splits)
  have rd: "imageMagickPath (snd (checkDependencies sh s)) = Some (quoted p)
            \<and> magickCommand (snd (checkDependencies sh s)) = quoted p"
    if "\<not> ok1" "\<not> ok2" "resolvedPath s2 = Some p" for p
    unfolding eq using that by (simp add: magickCommand_quoted)
  from eq log rd show ?thesis by blast
qed

theorem checkDependencies_probe_order_witness:
  "fst (exec noTools ''magick -version'' magickAtPath) = False
   \<and> fst (checkDependencies noTools magickAtPath) = Resolved (Some ''imagemagick-path'')
   \<and> execLog (snd (checkDependencies noTools magickAtPath))
       = [''magick -version'', ''convert -version'']
   \<and> imageMagickPath (snd (checkDependencies noTools magickAtPath))
       = Some (quoted ''/opt/im/magick'')
   \<and> magickCommand (snd (checkDependencies noTools magickAtPath)) = quoted ''/opt/im/magick''"
proof -
  let ?s1 = "snd (exec noTools ''magick -version'' magickAtPath)"
  let ?s2 = "snd (exec noTools ''convert -version'' ?s1)"
  let ?s3 = "snd (exec noTools ''ffmpeg -version'' ?s2)"
  have r1: "exec noTools ''magick -version'' magickAtPath = (False, ?s1)"
    by (simp add: exec_def noTools_def)
  have r2: "exec noTools ''convert -version'' ?s1 = (False, ?s2)"
    by (simp add: exec_def noTools_def)
  have r3: "exec noTools ''ffmpeg -version'' ?s2 = (False, ?s3)"
    by (simp add: exec_def noTools_def)
  have p: "resolvedPath ?s2 = Some ''/opt/im/magick''"
    by (simp add: resolvedPath_def exec_def noTools_def magickAtPath_def existsSync_def
          emptySystem_def)
  have l: "execLog magickAtPath = []" by (simp add: magickAtPath_def)
  note th = checkDependencies_probe_order [OF r1 r2 r3]
  have a: "fst (checkDependencies noTools magickAtPath) = Resolved (Some ''imagemagick-path'')"
    using th [THEN conjunct1] p by simp
  have b: "execLog (snd (checkDependencies noTools magickAtPath))
             = [''magick -version'', ''convert -version'']"
    using th [THEN conjunct2, THEN conjunct1] p l by simp
  have c: "imageMagickPath (snd (checkDependencies noTools magickAtPath))
             = Some (quoted ''/opt/im/magick'')
           \<and> magickCommand (snd (checkDependencies noTools magickAtPath))
             = quoted ''/opt/im/magick''"
    using th [THEN conjunct2, THEN conjunct2] p by simp
  have d: "fst (exec noTools ''magick -version'' magickAtPath) = False"
    by (simp add: exec_def noTools_def)
  from a b c d show ?thesis by blast
qed

text \<open>
  C9: whatever the shell answers to the probes and whatever the state of the process,
  the promise of \<^verbatim>\<open>checkDependencies\<close> is resolved, with one of the four backend names or
  with \<^verbatim>\<open>null\<close>; it is never rejected and never left pending.
\<close>

theorem checkDependencies_always_resolves:
  "\<exists>v. fst (checkDependencies sh s) = Resolved v
       \<and> v \<in> {Some ''imagemagick'', Some ''imagemagick-convert'', Some ''imagemagick-path'',
              Some ''ffmpeg'', None}"
  using checkDependencies_values [of sh s] by auto

section \<open>Claims about the backends and the driver loop\<close>

lemma ranOnly_refl: "ranOnly P s s"
  by (simp add: ranOnly_def)

lemma ranOnly_trans:
  assumes "ranOnly P s s1" "ranOnly P s1 s2"
  shows "ranOnly P s s2"
proof -
  from assms(1) obtain cs where cs: "execLog s1 = execLog s @ cs" "list_all P cs"
    unfolding ranOnly_def by (metis append_take_drop_id)
  from assms(2) obtain ds where ds: "execLog s2 = execLog s1 @ ds" "list_all P ds"
    unfolding ranOnly_def by (metis append_take_drop_id)
  from cs ds assms show ?thesis by (simp add: ranOnly_def)
qed

lemma ranOnly_exec:
  assumes "exec sh c s = (ok, s')" "P c"
  shows "ranOnly P s s'"
  using assms by (auto simp: exec_def ranOnly_def split: prod.splits)

lemma ranOnly_sys: "ranOnly P s (s\<lparr>sys := w\<rparr>)"
  by (simp add: ranOnly_def)

lemma ranOnly_cleanUp: "ranOnly P s (cleanUp a b s)"
  by (simp add: cleanUp_def ranOnly_def split: sum.splits)

lemma toolCommand_command1: "toolCommand (command1 l p)"
  by (simp add: command1_def toolCommand_def startsWith_def)

lemma toolCommand_command2: "toolCommand (command2 l p out)"
  by (simp add: command2_def toolCommand_def startsWith_def)

lemma toolCommand_paletteCmd: "toolCommand (paletteCmd l @ rest)"
  by (simp add: paletteCmd_def toolCommand_def startsWith_def)

lemma createGifWithImageMagick_log:
  "execLog (snd (createGifWithImageMagick sh b fs s)) =
     execLog s @ [magickCommand s @ '' -delay 10 -loop 0 -dispose previous ''
                  @ join '' '' (map (\<lambda>fr. quoted (path fr)) fs)
                  @ '' -coalesce -layers optimize ''
                  @ quoted (pathJoin outputDirGifs (b @ ''.gif''))]"
  by (auto simp: createGifWithImageMagick_def Let_def exec_def split: prod.splits bool.splits)

lemma createTransparentGifWithImageMagick_log:
  "execLog (snd (createTransparentGifWithImageMagick sh b fs s)) =
     execLog s @ [magickCommand s @ '' -delay 20 -loop 0 -dispose previous ''
                  @ join '' '' (map (\<lambda>fr. quoted (path fr)) fs)
                  @ '' '' @ quoted (pathJoin outputDirTransparentGifs (b @ ''.gif''))]"
  by (auto simp: createTransparentGifWithImageMagick_def Let_def exec_def
           split: prod.splits bool.splits)

lemma createGifWithImageMagick_ranOnly:
  assumes "imageMagickPath s = None"
  shows "ranOnly toolCommand s (snd (createGifWithImageMagick sh b fs s))"
proof -
  obtain ok s' where e: "exec sh (magickCommand s @ '' -delay 10 -loop 0 -dispose previous ''
                  @ join '' '' (map (\<lambda>fr. quoted (path fr)) fs)
                  @ '' -coalesce -layers optimize ''
                  @ quoted (pathJoin outputDirGifs (b @ ''.gif''))) s = (ok, s')" by fastforce
  have "ranOnly toolCommand s s'"
    using e by (rule ranOnly_exec) (simp add: magickCommand_None [OF assms] toolCommand_def startsWith_def)
  moreover have "snd (createGifWithImageMagick sh b fs s) = s'"
    using e by (simp add: createGifWithImageMagick_def Let_def split: bool.splits)
  ultimately show ?thesis by simp
qed

lemma createTransparentGifWithImageMagick_ranOnly:
  assumes "imageMagickPath s = None"
  shows "ranOnly toolCommand s (snd (createTransparentGifWithImageMagick sh b fs s))"
proof -
  obtain ok s' where e: "exec sh (magickCommand s @ '' -delay 20 -loop 0 -dispose previous ''
                  @ join '' '' (map (\<lambda>fr. quoted (path fr)) fs)
                  @ '' '' @ quoted (pathJoin outputDirTransparentGifs (b @ ''.gif''))) s = (ok, s')"
    by fastforce
  have "ranOnly toolCommand s s'"
    using e by (rule ranOnly_exec) (simp add: magickCommand_None [OF assms] toolCommand_def startsWith_def)
  moreover have "snd (createTransparentGifWithImageMagick sh b fs s) = s'"
    using e by (simp add: createTransparentGifWithImageMagick_def Let_def split: bool.splits)
  ultimately show ?thesis by simp
qed

lemma createGifWithFFmpeg_ranOnly:
  "ranOnly toolCommand s (snd (createGifWithFFmpeg sh b fs s))"
proof -
  define listFile where "listFile = pathJoin outputDirGifs (b @ ''_list.txt'')"
  define paletteFile where "paletteFile = pathJoin outputDirGifs (b @ ''_palette.png'')"
  define outputPath where "outputPath = pathJoin outputDirGifs (b @ ''.gif'')"
  show ?thesis
  proof (cases "writeFileSync listFile (listContent (sys s) fs) (sys s)")
    case (Inl e)
    then have "snd (createGifWithFFmpeg sh b fs s) = s"
      by (simp add: createGifWithFFmpeg_def listFile_def)
    then show ?thesis by (simp add: ranOnly_refl)
  next
    case (Inr w1)
    obtain ok1 s2 where e1: "exec sh (command1 listFile paletteFile) (s\<lparr>sys := w1\<rparr>) = (ok1, s2)"
      by fastforce
    have r2: "ranOnly toolCommand s s2"
      using ranOnly_sys ranOnly_exec [where P = toolCommand, OF e1 toolCommand_command1] by (rule ranOnly_trans)
    show ?thesis
    proof (cases ok1)
      case False
      with Inr e1 have "snd (createGifWithFFmpeg sh b fs s) = s2"
        by (simp add: createGifWithFFmpeg_def listFile_def paletteFile_def)
      with r2 show ?thesis by simp
    next
      case True
      obtain ok2 s3 where e2: "exec sh (command2 listFile paletteFile outputPath) s2 = (ok2, s3)"
        by fastforce
      have r3: "ranOnly toolCommand s s3"
        using r2 ranOnly_exec [where P = toolCommand, OF e2 toolCommand_command2] by (rule ranOnly_trans)
      have r4: "ranOnly toolCommand s (cleanUp listFile paletteFile s3)"
        using r3 ranOnly_cleanUp by (rule ranOnly_trans)
      from Inr e1 True e2 have "snd (createGifWithFFmpeg sh b fs s) = cleanUp listFile paletteFile s3"
        by (simp add: createGifWithFFmpeg_def listFile_def paletteFile_def outputPath_def Let_def)
      with r4 show ?thesis by simp
    qed
  qed
qed

lemma createTransparentGifWithFFmpeg_ranOnly:
  "ranOnly toolCommand s (snd (createTransparentGifWithFFmpeg sh b fs s))"
proof -
  define listFile where "listFile = pathJoin outputDirTransparentGifs (b @ ''_list.txt'')"
  define outputPath where "outputPath = pathJoin outputDirTransparentGifs (b @ ''.gif'')"
  show ?thesis
  proof (cases "writeFileSync listFile (listContent (sys s) fs) (sys s)")
    case (Inl e)
    then have "snd (createTransparentGifWithFFmpeg sh b fs s) = s"
      by (simp add: createTransparentGifWithFFmpeg_def listFile_def)
    then show ?thesis by (simp add: ranOnly_refl)
  next
    case (Inr w1)
    obtain ok s2 where e: "exec sh (paletteCmd listFile @ '' && '' @ gifCmd listFile outputPath)
                             (s\<lparr>sys := w1\<rparr>) = (ok, s2)"
      by fastforce
    have r2: "ranOnly toolCommand s s2"
      using ranOnly_sys ranOnly_exec [where P = toolCommand, OF e toolCommand_paletteCmd] by (rule ranOnly_trans)
    have r3: "ranOnly toolCommand s (cleanUp listFile (listFile @ ''.palette.png'') s2)"
      using r2 ranOnly_cleanUp by (rule ranOnly_trans)
    from Inr e have "snd (createTransparentGifWithFFmpeg sh b fs s)
                     = cleanUp listFile (listFile @ ''.palette.png'') s2"
      by (simp add: createTransparentGifWithFFmpeg_def listFile_def outputPath_def Let_def)
    with r3 show ?thesis by simp
  qed
qed

lemma processGroups_ranOnly:
  assumes p: "\<And>b fs s. imageMagickPath s = None \<Longrightarrow> ranOnly P s (snd (primary b fs s))"
      and f: "\<And>b fs s. imageMagickPath s = None \<Longrightarrow> ranOnly P s (snd (fallback b fs s))"
  shows "imageMagickPath s = None \<Longrightarrow> ranOnly P s (snd (processGroups primary fallback gs t s))"
proof (induction gs arbitrary: t s)
  case Nil
  show ?case by (simp add: ranOnly_refl)
next
  case (Cons g gs)
  obtain b fs where g: "g = (b, fs)" by (cases g)
  obtain r1 s1 where p1: "primary b fs s = (r1, s1)" by fastforce
  have a1: "ranOnly P s s1" using p [OF Cons.prems, of b fs] p1 by simp
  then have n1: "imageMagickPath s1 = None" using Cons.prems by (simp add: ranOnly_def)
  show ?case
  proof (cases r1)
    case (Inr out)
    have "ranOnly P s1 (snd (processGroups primary fallback gs
            (t\<lparr>successCount := successCount t + 1,
               attempts := attempts t @ [Attempt ImageMagick b True]\<rparr>) s1))"
      using n1 by (rule Cons.IH)
    with a1 show ?thesis unfolding g using p1 Inr
      by (simp add: ranOnly_trans)
  next
    case (Inl e)
    obtain r2 s2 where f2: "fallback b fs s1 = (r2, s2)" by fastforce
    have a2: "ranOnly P s1 s2" using f [OF n1, of b fs] f2 by simp
    then have n2: "imageMagickPath s2 = None" using n1 by (simp add: ranOnly_def)
    have a12: "ranOnly P s s2" using a1 a2 by (rule ranOnly_trans)
    have ih: "ranOnly P s2 (snd (processGroups primary fallback gs t' s2))" for t'
      using n2 by (rule Cons.IH)
    show ?thesis
    proof (cases r2)
      case (Inr out)
      show ?thesis unfolding g using p1 Inl f2 Inr ranOnly_trans [OF a12 ih]
        by simp
    next
      case (Inl e2)
      show ?thesis unfolding g using p1 \<open>r1 = Inl e\<close> f2 Inl ranOnly_trans [OF a12 ih]
        by simp
    qed
  qed
qed











lemma checkDependencies_convert_onlyD:
  assumes "checkDependencies sh s = (Resolved (Some ''imagemagick-convert''), s')"
  shows "\<not> fst (exec sh ''magick -version'' s)
         \<and> fst (exec sh ''convert -version'' (snd (exec sh ''magick -version'' s)))
         \<and> s' = snd (exec sh ''convert -version'' (snd (exec sh ''magick -version'' s)))"
proof -
  obtain ok1 s1 where r1: "exec sh ''magick -version'' s = (ok1, s1)" by fastforce
  obtain ok2 s2 where r2: "exec sh ''convert -version'' s1 = (ok2, s2)" by fastforce
  obtain ok3 s3 where r3: "exec sh ''ffmpeg -version'' s2 = (ok3, s3)" by fastforce
  from assms have "\<not> ok1 \<and> ok2 \<and> s' = s2"
    unfolding checkDependencies_eq [OF r1 r2 r3]
    by (auto split: if_splits option.splits)
  then show ?thesis using r1 r2 by simp
qed

text \<open>
  C10: when the probe resolves to \<^verbatim>\<open>imagemagick-convert\<close>, \<^verbatim>\<open>magick -version\<close> had failed and
  \<^verbatim>\<open>convert -version\<close> succeeded, and \<^verbatim>\<open>global.imageMagickPath\<close> is as before. In a process
  that had not set it, every later call of a primary backend runs a command that begins
  with \<^verbatim>\<open>magick\<close>, and all commands of the driver loops begin with \<^verbatim>\<open>magick\<close> or
  \<^verbatim>\<open>ffmpeg\<close>: none with \<^verbatim>\<open>convert\<close>.
\<close>

theorem convert_probe_keeps_magick_command:
  assumes "checkDependencies sh s = (Resolved (Some ''imagemagick-convert''), s')"
  shows "\<not> fst (exec sh ''magick -version'' s)
         \<and> fst (exec sh ''convert -version'' (snd (exec sh ''magick -version'' s)))
         \<and> imageMagickPath s' = imageMagickPath s
         \<and> (imageMagickPath s = None \<longrightarrow>
               magickCommand s' = ''magick''
             \<and> startsWith ''magick -delay 10 ''
                 (last (execLog (snd (createGifWithImageMagick sh baseName frames s'))))
             \<and> startsWith ''magick -delay 20 ''
                 (last (execLog (snd (createTransparentGifWithImageMagick sh baseName frames s'))))
             \<and> ranOnly toolCommand s' (snd (createGifs sh groups s'))
             \<and> ranOnly toolCommand s' (snd (createTransparentGifs sh s')))"
proof -
  note d = checkDependencies_convert_onlyD [OF assms]
  obtain ok1 s1 where r1: "exec sh ''magick -version'' s = (ok1, s1)" by fastforce
  obtain ok2 where r2: "exec sh ''convert -version'' s1 = (ok2, s')"
    using d r1 by (cases "exec sh ''convert -version'' s1") simp
  have keep: "imageMagickPath s' = imageMagickPath s"
    using exec_imageMagickPath [OF r1] exec_imageMagickPath [OF r2] by simp
  have rest: "magickCommand s' = ''magick''
             \<and> startsWith ''magick -delay 10 ''
                 (last (execLog (snd (createGifWithImageMagick sh baseName frames s'))))
             \<and> startsWith ''magick -delay 20 ''
                 (last (execLog (snd (createTransparentGifWithImageMagick sh baseName frames s'))))
             \<and> ranOnly toolCommand s' (snd (createGifs sh groups s'))
             \<and> ranOnly toolCommand s' (snd (createTransparentGifs sh s'))"
    if "imageMagickPath s = None"
  proof -
    from that keep have n: "imageMagickPath s' = None" by simp
    have m: "magickCommand s' = ''magick''" using n by (rule magickCommand_None)
    have a: "startsWith ''magick -delay 10 ''
               (last (execLog (snd (createGifWithImageMagick sh baseName frames s'))))"
      by (simp add: createGifWithImageMagick_log m startsWith_def)
    have b: "startsWith ''magick -delay 20 ''
               (last (execLog (snd (createTransparentGifWithImageMagick sh baseName frames s'))))"
      by (simp add: createTransparentGifWithImageMagick_log m startsWith_def)
    have c: "ranOnly toolCommand s' (snd (createGifs sh groups s'))"
      unfolding createGifs_def
      using createGifWithImageMagick_ranOnly createGifWithFFmpeg_ranOnly n
      by (rule processGroups_ranOnly)
    have d: "ranOnly toolCommand s' (snd (createTransparentGifs sh s'))"
    proof (cases "readdirSync transparentDir (sys s')")
      case (Inl e)
      then show ?thesis by (simp add: createTransparentGifs_def ranOnly_refl)
    next
      case (Inr names)
      show ?thesis
      proof (cases "groupTransparentImagesByBaseName names")
        case (Inl e)
        with Inr show ?thesis by (simp add: createTransparentGifs_def ranOnly_refl)
      next
        case g: (Inr groups)
        have "ranOnly toolCommand s' (snd (processGroups (createTransparentGifWithImageMagick sh)
                (createTransparentGifWithFFmpeg sh) (groupEntries groups) noTally s'))"
          using createTransparentGifWithImageMagick_ranOnly createTransparentGifWithFFmpeg_ranOnly n
          by (rule processGroups_ranOnly)
        with Inr g show ?thesis
          by (auto simp: createTransparentGifs_def ranOnly_refl split: prod.splits)
      qed
    qed
    from m a b c d show ?thesis by blast
  qed
  from d keep rest show ?thesis by blast
qed

theorem convert_probe_keeps_magick_command_witness:
  "fst (checkDependencies convertOnly (freshProcess emptySystem))
     = Resolved (Some ''imagemagick-convert'')
   \<and> imageMagickPath (freshProcess emptySystem) = None
   \<and> imageMagickPath (snd (checkDependencies convertOnly (freshProcess emptySystem))) = None
   \<and> magickCommand (snd (checkDependencies convertOnly (freshProcess emptySystem))) = ''magick''
   \<and> startsWith ''magick -delay 10 ''
        (last (execLog (snd (createGifWithImageMagick convertOnly ''door'' []
           (snd (checkDependencies convertOnly (freshProcess emptySystem)))))))"
proof -
  let ?s' = "snd (checkDependencies convertOnly (freshProcess emptySystem))"
  have a: "checkDependencies convertOnly (freshProcess emptySystem)
           = (Resolved (Some ''imagemagick-convert''), ?s')"
    by (simp add: checkDependencies_def exec_def convertOnly_def freshProcess_def resolve_def)
  have n: "imageMagickPath (freshProcess emptySystem) = None"
    by (simp add: freshProcess_def)
  note th = convert_probe_keeps_magick_command [OF a, of "''door''" "[]" "[]"]
  have k: "imageMagickPath ?s' = None"
    using th [THEN conjunct2, THEN conjunct2, THEN conjunct1] n by simp
  have r: "magickCommand ?s' = ''magick''
           \<and> startsWith ''magick -delay 10 ''
                (last (execLog (snd (createGifWithImageMagick convertOnly ''door'' [] ?s'))))"
    using th [THEN conjunct2, THEN conjunct2, THEN conjunct2] n by blast
  have f: "fst (checkDependencies convertOnly (freshProcess emptySystem))
             = Resolved (Some ''imagemagick-convert'')"
    using a by (metis fst_conv)
  from f n k r show ?thesis by blast
qed

lemma createGifWithFFmpeg_palette_failure:
  assumes "writeFileSync (pathJoin outputDirGifs (b @ ''_list.txt''))
             (listContent (sys s) fs) (sys s) = Inr w1"
      and "exec sh (command1 (pathJoin outputDirGifs (b @ ''_list.txt''))
                             (pathJoin outputDirGifs (b @ ''_palette.png'')))
             (s\<lparr>sys := w1\<rparr>) = (False, s2)"
  shows "createGifWithFFmpeg sh b fs s =
           (Inl (ExecError (command1 (pathJoin outputDirGifs (b @ ''_list.txt''))
                                     (pathJoin outputDirGifs (b @ ''_palette.png'')))), s2)"
  using assms by (simp add: createGifWithFFmpeg_def Let_def)

lemma cleanUp_first_gone:
  assumes "a \<notin> denied (sys s)"
  shows "contents (sys (cleanUp a b s)) a = None"
  using assms by (auto simp: cleanUp_def unlinkSync_def split: sum.splits if_splits)

lemma cleanUp_second_gone:
  assumes "contents (sys s) a \<noteq> None" "a \<notin> denied (sys s)" "b \<notin> denied (sys s)" "a \<noteq> b"
  shows "contents (sys (cleanUp a b s)) b = None"
  using assms by (auto simp: cleanUp_def unlinkSync_def split: sum.splits if_splits)

lemma createTransparentGifWithFFmpeg_cleans:
  assumes "writeFileSync (pathJoin outputDirTransparentGifs (b @ ''_list.txt''))
             (listContent (sys s) fs) (sys s) = Inr w1"
      and "exec sh (paletteCmd (pathJoin outputDirTransparentGifs (b @ ''_list.txt'')) @ '' && ''
                    @ gifCmd (pathJoin outputDirTransparentGifs (b @ ''_list.txt''))
                             (pathJoin outputDirTransparentGifs (b @ ''.gif'')))
             (s\<lparr>sys := w1\<rparr>) = (ok, s2)"
      and "pathJoin outputDirTransparentGifs (b @ ''_list.txt'') \<notin> denied (sys s2)"
  shows "contents (sys (snd (createTransparentGifWithFFmpeg sh b fs s)))
           (pathJoin outputDirTransparentGifs (b @ ''_list.txt'')) = None"
  using assms by (simp add: createTransparentGifWithFFmpeg_def Let_def cleanUp_first_gone)

lemma createTransparentGifWithFFmpeg_cleans_palette:
  assumes "writeFileSync (pathJoin outputDirTransparentGifs (b @ ''_list.txt''))
             (listContent (sys s) fs) (sys s) = Inr w1"
      and "exec sh (paletteCmd (pathJoin outputDirTransparentGifs (b @ ''_list.txt'')) @ '' && ''
                    @ gifCmd (pathJoin outputDirTransparentGifs (b @ ''_list.txt''))
                             (pathJoin outputDirTransparentGifs (b @ ''.gif'')))
             (s\<lparr>sys := w1\<rparr>) = (ok, s2)"
      and "contents (sys s2) (pathJoin outputDirTransparentGifs (b @ ''_list.txt'')) \<noteq> None"
      and "pathJoin outputDirTransparentGifs (b @ ''_list.txt'') \<notin> denied (sys s2)"
      and "pathJoin outputDirTransparentGifs (b @ ''_list.txt'') @ ''.palette.png''
             \<notin> denied (sys s2)"
  shows "contents (sys (snd (createTransparentGifWithFFmpeg sh b fs s)))
           (pathJoin outputDirTransparentGifs (b @ ''_list.txt'') @ ''.palette.png'') = None"
  using assms by (simp add: createTransparentGifWithFFmpeg_def Let_def cleanUp_second_gone)

lemma createGifWithFFmpeg_cleans_after_palette_pass:
  assumes "writeFileSync (pathJoin outputDirGifs (b @ ''_list.txt''))
             (listContent (sys s) fs) (sys s) = Inr w1"
      and "exec sh (command1 (pathJoin outputDirGifs (b @ ''_list.txt''))
                             (pathJoin outputDirGifs (b @ ''_palette.png'')))
             (s\<lparr>sys := w1\<rparr>) = (True, s2)"
      and "exec sh (command2 (pathJoin outputDirGifs (b @ ''_list.txt''))
                             (pathJoin outputDirGifs (b @ ''_palette.png''))
                             (pathJoin outputDirGifs (b @ ''.gif''))) s2 = (ok, s3)"
      and "pathJoin outputDirGifs (b @ ''_list.txt'') \<notin> denied (sys s3)"
  shows "contents (sys (snd (createGifWithFFmpeg sh b fs s)))
           (pathJoin outputDirGifs (b @ ''_list.txt'')) = None"
  using assms by (simp add: createGifWithFFmpeg_def Let_def cleanUp_first_gone)

text \<open>
  C7 (the code departs from the claim). The claim: after every call of the FFmpeg
  backend the manifest and the palette file are removed, when it succeeds and when it
  fails. \<^verbatim>\<open>createTransparentGifWithFFmpeg\<close> does so
  (\<open>createTransparentGifWithFFmpeg_cleans\<close>), and so does \<^verbatim>\<open>createGifWithFFmpeg\<close> once its
  first command has succeeded (\<open>createGifWithFFmpeg_cleans_after_palette_pass\<close>). When the
  first command fails, \<^verbatim>\<open>createGifWithFFmpeg\<close> returns from the callback before the removal
  (\<open>createGifWithFFmpeg_palette_failure\<close>): with no \<^verbatim>\<open>ffmpeg\<close> on the system the manifest
  \<^verbatim>\<open>door_list.txt\<close> written for the group \<^verbatim>\<open>door\<close> is still there after the call, while the
  sibling leaves none.
\<close>

theorem createGifWithFFmpeg_leaves_manifest:
  "contents (sys (freshProcess emptySystem)) ''converted/gifs/door_list.txt'' = None
   \<and> fst (createGifWithFFmpeg noTools ''door'' doorFrames (freshProcess emptySystem))
       = Inl (ExecError (command1 ''converted/gifs/door_list.txt''
                                  ''converted/gifs/door_palette.png''))
   \<and> contents (sys (snd (createGifWithFFmpeg noTools ''door'' doorFrames
                           (freshProcess emptySystem))))
        ''converted/gifs/door_list.txt''
       = Some (listContent emptySystem doorFrames)
   \<and> contents (sys (snd (createTransparentGifWithFFmpeg noTools ''door'' doorFrames
                           (freshProcess emptySystem))))
        ''converted/transparent-gifs/door_list.txt''
       = None"
  by (simp add: createGifWithFFmpeg_def createTransparentGifWithFFmpeg_def Let_def
        outputDirGifs_def outputDirTransparentGifs_def system_defs)

section \<open>Claims about the scripts\<close>

lemma pathPrefixes_transparentGifs:
  "pathPrefixes outputDirTransparentGifs = [''.'', ''./converted'', ''./converted/transparent-gifs'']"
  by (simp add: pathPrefixes_def outputDirTransparentGifs_def upt_rec_numeral)

lemma ensureOutputDir_exists:
  assumes "ensureOutputDir d s = Inr s0"
  shows "existsSync d (sys s0)"
  using assms
  by (auto simp: ensureOutputDir_def mkdirSync_def existsSync_def pathPrefixes_def
           split: if_splits sum.splits)

lemma ensureOutputDir_transparentDir:
  assumes "ensureOutputDir outputDirTransparentGifs s = Inr s0"
  shows "existsSync transparentDir (sys s0) = existsSync transparentDir (sys s)"
  using assms
  by (auto simp: ensureOutputDir_def mkdirSync_def existsSync_def pathPrefixes_transparentGifs
                 transparentDir_def
           split: if_splits sum.splits)

lemma load_emptySystem:
  "ensureOutputDir outputDirTransparentGifs (freshProcess emptySystem)
   = Inr (freshProcess (emptySystem\<lparr>dirs := {''.'', ''./converted'', ''./converted/transparent-gifs''}\<rparr>))"
  by (simp add: ensureOutputDir_def mkdirSync_def pathPrefixes_transparentGifs list_ex_iff
        system_defs)

lemma load_emptyTransparent:
  "ensureOutputDir outputDirTransparentGifs (freshProcess emptyTransparent)
   = Inr (freshProcess (emptyTransparent\<lparr>dirs := {transparentDir, ''.'', ''./converted'',
                                                   ''./converted/transparent-gifs''}\<rparr>))"
  by (simp add: ensureOutputDir_def mkdirSync_def pathPrefixes_transparentGifs list_ex_iff
        emptyTransparent_def system_defs)
     (auto simp: outputDirTransparentGifs_def transparentDir_def)

lemma probe_convertOnly:
  "checkDependencies convertOnly (freshProcess w)
   = (Resolved (Some ''imagemagick-convert''),
      \<lparr>sys = w, imageMagickPath = None, MAGICK_PATH = None,
        execLog = [''magick -version'', ''convert -version'']\<rparr>)"
  by (simp add: checkDependencies_def exec_def convertOnly_def freshProcess_def resolve_def)

lemma probe_noTools_loaded:
  "fst (checkDependencies noTools
          (freshProcess (emptyTransparent\<lparr>dirs := {transparentDir, ''.'', ''./converted'',
                                                    ''./converted/transparent-gifs''}\<rparr>)))
   = Resolved None"
  by (simp add: checkDependencies_def probeCommonPathsThenFFmpeg_def commonPaths_def winPath_def
        resolve_def emptyTransparent_def transparentDir_def system_defs)

lemma probe_noTools_twoTextureFrames:
  "checkDependencies noTools (freshProcess twoTextureFrames)
   = (Resolved None,
      \<lparr>sys = twoTextureFrames, imageMagickPath = None, MAGICK_PATH = None,
        execLog = [''magick -version'', ''convert -version'', ''ffmpeg -version'']\<rparr>)"
  by (simp add: checkDependencies_def probeCommonPathsThenFFmpeg_def commonPaths_def winPath_def
        resolve_def twoTextureFrames_def texturesDir_def system_defs)

lemma emptyTextures_no_tool:
  "fst (checkDependencies noTools (freshProcess emptyTextures)) = Resolved None"
  by (simp add: checkDependencies_def probeCommonPathsThenFFmpeg_def commonPaths_def winPath_def
        resolve_def emptyTextures_def texturesDir_def system_defs)

lemma twoTransparentFrames_tally:
  "fst (createTransparentGifs convertOnly
         \<lparr>sys = twoTransparentFrames, imageMagickPath = None, MAGICK_PATH = None,
           execLog = [''magick -version'', ''convert -version'']\<rparr>)
   = Inr (Some \<lparr>successCount = 0, failCount = 1,
                 attempts = [Attempt ImageMagick ''a'' False, Attempt FFmpeg ''a'' False]\<rparr>)"
  by (simp add: createTransparentGifs_def twoTransparentFrames_def system_defs grouping_defs
        groupEntries_def noTally_def createTransparentGifWithImageMagick_def
        createTransparentGifWithFFmpeg_def Let_def one_enat_def zero_enat_def convertOnly_def
        magickCommand_def paletteCmd_def gifCmd_def outputDirTransparentGifs_def)

lemma twoTextureFrames_groups:
  "groupImagesByBaseName [''door_0.png'', ''door_1.png'']
   = Inr [(''door'', [\<lparr>file = ''door_0.png'', frame = 0, path = ''converted/textures/door_0.png''\<rparr>,
                      \<lparr>file = ''door_1.png'', frame = 1, path = ''converted/textures/door_1.png''\<rparr>])]"
  by (simp add: grouping_defs one_enat_def zero_enat_def)

text \<open>
  C5, as stated: when the input directory does not exist the process exits with code 1
  and no output directory is created. It fails on the second part: the module body of
  \<^verbatim>\<open>transparent-gif-creator.js\<close> creates the output directory before \<^verbatim>\<open>main\<close> looks for the
  input directory.
\<close>

theorem output_directory_created_without_input:
  "\<not> existsSync transparentDir (sys (freshProcess emptySystem))
   \<and> \<not> existsSync outputDirTransparentGifs (sys (freshProcess emptySystem))
   \<and> exitCode (fst (runTransparentGifCreator noTools (freshProcess emptySystem))) = 1
   \<and> existsSync outputDirTransparentGifs
        (sys (snd (runTransparentGifCreator noTools (freshProcess emptySystem))))"
proof -
  have a: "\<not> existsSync transparentDir (sys (freshProcess emptySystem))"
    by (simp add: system_defs)
  have b: "\<not> existsSync outputDirTransparentGifs (sys (freshProcess emptySystem))"
    by (simp add: system_defs)
  have "\<exists>s0. ensureOutputDir outputDirTransparentGifs (freshProcess emptySystem) = Inr s0"
    by (simp add: ensureOutputDir_def mkdirSync_def list_ex_iff system_defs)
  then obtain s0 where e: "ensureOutputDir outputDirTransparentGifs (freshProcess emptySystem) = Inr s0"
    by blast
  have n: "\<not> existsSync transparentDir (sys s0)"
    using ensureOutputDir_transparentDir [OF e] a by simp
  have r: "runTransparentGifCreator noTools (freshProcess emptySystem)
           = (\<lparr>exitCode = 1, stages = [CheckInput],
               ending = Fatal ''Transparent textures directory not found''\<rparr>, s0)"
    using e n by (simp add: runTransparentGifCreator_def mainTransparentGifs_def)
  show ?thesis using a b ensureOutputDir_exists [OF e] by (simp add: r)
qed

text \<open>
  C5, amended: when the module body has run (the output directory exists from then on),
  a missing input directory ends the process with code 1 and runs nothing else; with the
  input directory present, the process exits with code 1 when the probe finds no tool,
  and with code 0 when a tool is found and the driver returns, with or without
  sequences to convert.
\<close>

theorem transparent_gif_creator_exit_codes:
  assumes "ensureOutputDir outputDirTransparentGifs s = Inr s0"
  shows "(\<not> existsSync transparentDir (sys s) \<longrightarrow>
            exitCode (fst (runTransparentGifCreator sh s)) = 1
          \<and> snd (runTransparentGifCreator sh s) = s0
          \<and> existsSync outputDirTransparentGifs (sys s0))
       \<and> (existsSync transparentDir (sys s) \<and> fst (checkDependencies sh s0) = Resolved None \<longrightarrow>
            exitCode (fst (runTransparentGifCreator sh s)) = 1)
       \<and> (existsSync transparentDir (sys s) \<and> checkDependencies sh s0 = (Resolved (Some tool), s1)
          \<and> fst (createTransparentGifs sh s1) = Inr r \<longrightarrow>
            exitCode (fst (runTransparentGifCreator sh s)) = 0
          \<and> ending (fst (runTransparentGifCreator sh s))
              = (case r of
                   None \<Rightarrow> NothingToDo ''No transparent image sequences found.''
                 | Some t \<Rightarrow> Done t))"
proof -
  note t = ensureOutputDir_transparentDir [OF assms]
  note o = ensureOutputDir_exists [OF assms]
  have r: "runTransparentGifCreator sh s = mainTransparentGifs sh s0"
    using assms by (simp add: runTransparentGifCreator_def)
  have a: "exitCode (fst (runTransparentGifCreator sh s)) = 1
          \<and> snd (runTransparentGifCreator sh s) = s0
          \<and> existsSync outputDirTransparentGifs (sys s0)"
    if "\<not> existsSync transparentDir (sys s)"
    unfolding r using that t o by (simp add: mainTransparentGifs_def)
  have b: "exitCode (fst (runTransparentGifCreator sh s)) = 1"
    if "existsSync transparentDir (sys s)" "fst (checkDependencies sh s0) = Resolved None"
    unfolding r using that t
    by (cases "checkDependencies sh s0") (simp add: mainTransparentGifs_def truthy_def)
  have c: "exitCode (fst (runTransparentGifCreator sh s)) = 0
          \<and> ending (fst (runTransparentGifCreator sh s))
              = (case r of
                   None \<Rightarrow> NothingToDo ''No transparent image sequences found.''
                 | Some t \<Rightarrow> Done t)"
    if h: "existsSync transparentDir (sys s)" "checkDependencies sh s0 = (Resolved (Some tool), s1)"
       "fst (createTransparentGifs sh s1) = Inr r"
  proof -
    have tr: "truthy (Some tool)" using checkDependencies_truthy [OF h(2)] by simp
    show ?thesis
      unfolding r using h t tr
      by (cases "createTransparentGifs sh s1"; cases r)
         (simp_all add: mainTransparentGifs_def)
  qed
  from a b c show ?thesis by blast
qed

theorem transparent_gif_creator_exit_codes_witness:
  "\<not> existsSync transparentDir (sys (freshProcess emptySystem))
   \<and> exitCode (fst (runTransparentGifCreator noTools (freshProcess emptySystem))) = 1
   \<and> existsSync outputDirTransparentGifs
        (sys (snd (runTransparentGifCreator noTools (freshProcess emptySystem))))
   \<and> existsSync transparentDir (sys (freshProcess emptyTransparent))
   \<and> exitCode (fst (runTransparentGifCreator noTools (freshProcess emptyTransparent))) = 1
   \<and> exitCode (fst (runTransparentGifCreator convertOnly (freshProcess emptyTransparent))) = 0
   \<and> ending (fst (runTransparentGifCreator convertOnly (freshProcess emptyTransparent)))
       = NothingToDo ''No transparent image sequences found.''"
proof -
  let ?s0 = "freshProcess (emptySystem\<lparr>dirs := {''.'', ''./converted'',
                                                ''./converted/transparent-gifs''}\<rparr>)"
  let ?w1 = "emptyTransparent\<lparr>dirs := {transparentDir, ''.'', ''./converted'',
                                        ''./converted/transparent-gifs''}\<rparr>"
  let ?s2 = "\<lparr>sys = ?w1, imageMagickPath = None, MAGICK_PATH = None,
              execLog = [''magick -version'', ''convert -version'']\<rparr>"
  have a: "\<not> existsSync transparentDir (sys (freshProcess emptySystem))"
    by (simp add: system_defs)
  have b: "existsSync transparentDir (sys (freshProcess emptyTransparent))"
    by (simp add: emptyTransparent_def system_defs)
  have c: "fst (createTransparentGifs convertOnly ?s2) = Inr None"
    by (simp add: createTransparentGifs_def emptyTransparent_def system_defs grouping_defs)
  note t0 = transparent_gif_creator_exit_codes [OF load_emptySystem, of noTools]
  note t1 = transparent_gif_creator_exit_codes [OF load_emptyTransparent, of noTools]
  note t2 = transparent_gif_creator_exit_codes
    [OF load_emptyTransparent, of convertOnly "''imagemagick-convert''" ?s2 None]
  have r0: "exitCode (fst (runTransparentGifCreator noTools (freshProcess emptySystem))) = 1
          \<and> snd (runTransparentGifCreator noTools (freshProcess emptySystem)) = ?s0
          \<and> existsSync outputDirTransparentGifs (sys ?s0)"
    using t0 [THEN conjunct1] a by blast
  have r1: "exitCode (fst (runTransparentGifCreator noTools (freshProcess emptyTransparent))) = 1"
    using t1 [THEN conjunct2, THEN conjunct1] b probe_noTools_loaded by blast
  have r2: "exitCode (fst (runTransparentGifCreator convertOnly (freshProcess emptyTransparent))) = 0
          \<and> ending (fst (runTransparentGifCreator convertOnly (freshProcess emptyTransparent)))
              = NothingToDo ''No transparent image sequences found.''"
    using t2 [THEN conjunct2, THEN conjunct2] b c probe_convertOnly [of ?w1] by simp
  from a b r0 r1 r2 show ?thesis by simp
qed

text \<open>
  C8, as stated: \<^verbatim>\<open>main\<close> checks the input directory, then probes the tools and exits
  fatally if none is found, then builds the groups. It fails for \<^verbatim>\<open>main\<close> of the GIF
  creator, which builds the groups before it probes: with the input directory present
  but empty and no tool on the system it exits cleanly, without having run a probe.
\<close>

theorem gif_creator_groups_before_probe:
  "existsSync texturesDir (sys (freshProcess emptyTextures))
   \<and> fst (checkDependencies noTools (freshProcess emptyTextures)) = Resolved None
   \<and> fst (mainGifs noTools missingInstaller (freshProcess emptyTextures))
       = \<lparr>exitCode = 0, stages = [CheckInput, BuildGroups],
          ending = NothingToDo ''No image sequences found.''\<rparr>
   \<and> execLog (snd (mainGifs noTools missingInstaller (freshProcess emptyTextures))) = []"
proof -
  have a: "existsSync texturesDir (sys (freshProcess emptyTextures))"
    by (simp add: emptyTextures_def system_defs)
  have b: "readdirSync texturesDir (sys (freshProcess emptyTextures)) = Inr []"
    by (simp add: emptyTextures_def system_defs)
  have c: "groupImagesByBaseName [] = Inr []"
    by (simp add: grouping_defs)
  have d: "objectKeys [] = []" by (simp add: objectKeys_def)
  have m: "mainGifs noTools missingInstaller (freshProcess emptyTextures)
           = (\<lparr>exitCode = 0, stages = [CheckInput, BuildGroups],
               ending = NothingToDo ''No image sequences found.''\<rparr>, freshProcess emptyTextures)"
    by (simp add: mainGifs_def a b c d)
  show ?thesis using a emptyTextures_no_tool m by (simp add: freshProcess_def)
qed

text \<open>
  C8, amended: \<^verbatim>\<open>main\<close> of \<^verbatim>\<open>transparent-gif-creator.js\<close> checks the input directory (fatal
  if missing), probes the tools (fatal if none), builds the groups (clean exit with a
  message if none), processes the groups and prints the tally. \<^verbatim>\<open>main\<close> of the GIF creator
  checks the input directory (fatal if missing), builds the groups (clean exit with a
  message if none), then probes; with no tool it calls the installer and exits, with
  code 0 if that succeeds and 1 if not; with a tool it processes the groups and prints
  the tally. The process is left as the last stage reached leaves it: untouched when the
  run ends before the probe, as the probe leaves it when no tool is found.
\<close>

theorem main_stage_order:
  "(\<not> existsSync transparentDir (sys s) \<longrightarrow>
      mainTransparentGifs sh s
        = (\<lparr>exitCode = 1, stages = [CheckInput],
            ending = Fatal ''Transparent textures directory not found''\<rparr>, s))
   \<and> (existsSync transparentDir (sys s) \<and> checkDependencies sh s = (Resolved None, s1) \<longrightarrow>
      mainTransparentGifs sh s
        = (\<lparr>exitCode = 1, stages = [CheckInput, ProbeTools],
            ending = Fatal ''No image processing tools found.''\<rparr>, s1))
   \<and> (existsSync transparentDir (sys s) \<and> checkDependencies sh s = (Resolved (Some tool), s1) \<longrightarrow>
        (fst (createTransparentGifs sh s1) = Inr None \<longrightarrow>
           mainTransparentGifs sh s
             = (\<lparr>exitCode = 0, stages = [CheckInput, ProbeTools, BuildGroups],
                 ending = NothingToDo ''No transparent image sequences found.''\<rparr>,
                snd (createTransparentGifs sh s1)))
      \<and> (fst (createTransparentGifs sh s1) = Inr (Some t) \<longrightarrow>
           mainTransparentGifs sh s
             = (\<lparr>exitCode = 0,
                 stages = [CheckInput, ProbeTools, BuildGroups, ProcessGroups, PrintTally],
                 ending = Done t\<rparr>,
                snd (createTransparentGifs sh s1))))
   \<and> (\<not> existsSync texturesDir (sys s) \<longrightarrow>
      mainGifs sh install s
        = (\<lparr>exitCode = 1, stages = [CheckInput],
            ending = Fatal ''Textures directory not found''\<rparr>, s))
   \<and> (existsSync texturesDir (sys s) \<and> readdirSync texturesDir (sys s) = Inr names
        \<and> groupImagesByBaseName names = Inr groups \<longrightarrow>
        (objectKeys groups = [] \<longrightarrow>
           mainGifs sh install s
             = (\<lparr>exitCode = 0, stages = [CheckInput, BuildGroups],
                 ending = NothingToDo ''No image sequences found.''\<rparr>, s))
      \<and> (objectKeys groups \<noteq> [] \<and> checkDependencies sh s = (Resolved None, s1) \<longrightarrow>
           stages (fst (mainGifs sh install s))
             = [CheckInput, BuildGroups, ProbeTools, InstallTool]
         \<and> exitCode (fst (mainGifs sh install s))
             = (case fst (install s1) of Inr u \<Rightarrow> 0 | Inl e \<Rightarrow> 1)
         \<and> snd (mainGifs sh install s) = snd (install s1))
      \<and> (objectKeys groups \<noteq> [] \<and> checkDependencies sh s = (Resolved (Some tool), s1) \<longrightarrow>
           mainGifs sh install s
             = (\<lparr>exitCode = 0,
                 stages = [CheckInput, BuildGroups, ProbeTools, ProcessGroups, PrintTally],
                 ending = Done (fst (createGifs sh groups s1))\<rparr>,
                snd (createGifs sh groups s1))))"
proof -
  have tr: "truthy (Some tool)" if "checkDependencies sh s = (Resolved (Some tool), s1)"
    using checkDependencies_truthy [OF that] by simp
  have a: "mainTransparentGifs sh s
        = (\<lparr>exitCode = 1, stages = [CheckInput],
            ending = Fatal ''Transparent textures directory not found''\<rparr>, s)"
    if "\<not> existsSync transparentDir (sys s)"
    using that by (simp add: mainTransparentGifs_def)
  have b: "mainTransparentGifs sh s
        = (\<lparr>exitCode = 1, stages = [CheckInput, ProbeTools],
            ending = Fatal ''No image processing tools found.''\<rparr>, s1)"
    if "existsSync transparentDir (sys s)" "checkDependencies sh s = (Resolved None, s1)"
    using that by (simp add: mainTransparentGifs_def truthy_def)
  have c: "mainTransparentGifs sh s
             = (\<lparr>exitCode = 0, stages = [CheckInput, ProbeTools, BuildGroups],
                 ending = NothingToDo ''No transparent image sequences found.''\<rparr>,
                snd (createTransparentGifs sh s1))"
    if "existsSync transparentDir (sys s)" "checkDependencies sh s = (Resolved (Some tool), s1)"
       "fst (createTransparentGifs sh s1) = Inr None"
    using that tr by (cases "createTransparentGifs sh s1") (simp add: mainTransparentGifs_def)
  have d: "mainTransparentGifs sh s
             = (\<lparr>exitCode = 0,
                 stages = [CheckInput, ProbeTools, BuildGroups, ProcessGroups, PrintTally],
                 ending = Done t\<rparr>,
                snd (createTransparentGifs sh s1))"
    if "existsSync transparentDir (sys s)" "checkDependencies sh s = (Resolved (Some tool), s1)"
       "fst (createTransparentGifs sh s1) = Inr (Some t)"
    using that tr by (cases "createTransparentGifs sh s1") (simp add: mainTransparentGifs_def)
  have e: "mainGifs sh install s
        = (\<lparr>exitCode = 1, stages = [CheckInput],
            ending = Fatal ''Textures directory not found''\<rparr>, s)"
    if "\<not> existsSync texturesDir (sys s)"
    using that by (simp add: mainGifs_def)
  have f: "mainGifs sh install s
             = (\<lparr>exitCode = 0, stages = [CheckInput, BuildGroups],
                 ending = NothingToDo ''No image sequences found.''\<rparr>, s)"
    if "existsSync texturesDir (sys s)" "readdirSync texturesDir (sys s) = Inr names"
       "groupImagesByBaseName names = Inr groups" "objectKeys groups = []"
    using that by (simp add: mainGifs_def)
  have g: "stages (fst (mainGifs sh install s))
             = [CheckInput, BuildGroups, ProbeTools, InstallTool]
         \<and> exitCode (fst (mainGifs sh install s))
             = (case fst (install s1) of Inr u \<Rightarrow> 0 | Inl e \<Rightarrow> 1)
         \<and> snd (mainGifs sh install s) = snd (install s1)"
    if "existsSync texturesDir (sys s)" "readdirSync texturesDir (sys s) = Inr names"
       "groupImagesByBaseName names = Inr groups" "objectKeys groups \<noteq> []"
       "checkDependencies sh s = (Resolved None, s1)"
    using that by (cases "install s1") (auto simp: mainGifs_def truthy_def split: sum.splits)
  have h: "mainGifs sh install s
             = (\<lparr>exitCode = 0,
                 stages = [CheckInput, BuildGroups, ProbeTools, ProcessGroups, PrintTally],
                 ending = Done (fst (createGifs sh groups s1))\<rparr>,
                snd (createGifs sh groups s1))"
    if "existsSync texturesDir (sys s)" "readdirSync texturesDir (sys s) = Inr names"
       "groupImagesByBaseName names = Inr groups" "objectKeys groups \<noteq> []"
       "checkDependencies sh s = (Resolved (Some tool), s1)"
    using that tr by (cases "createGifs sh groups s1") (simp add: mainGifs_def)
  from a b c d e f g h show ?thesis by blast
qed

theorem main_stage_order_witness:
  "\<not> existsSync transparentDir (sys (freshProcess emptySystem))
   \<and> fst (mainTransparentGifs noTools (freshProcess emptySystem))
       = \<lparr>exitCode = 1, stages = [CheckInput],
          ending = Fatal ''Transparent textures directory not found''\<rparr>
   \<and> existsSync transparentDir (sys (freshProcess twoTransparentFrames))
   \<and> fst (checkDependencies convertOnly (freshProcess twoTransparentFrames))
       = Resolved (Some ''imagemagick-convert'')
   \<and> fst (mainTransparentGifs convertOnly (freshProcess twoTransparentFrames))
       = \<lparr>exitCode = 0,
          stages = [CheckInput, ProbeTools, BuildGroups, ProcessGroups, PrintTally],
          ending = Done \<lparr>successCount = 0, failCount = 1,
                         attempts = [Attempt ImageMagick ''a'' False,
                                     Attempt FFmpeg ''a'' False]\<rparr>\<rparr>
   \<and> existsSync texturesDir (sys (freshProcess twoTextureFrames))
   \<and> fst (checkDependencies noTools (freshProcess twoTextureFrames)) = Resolved None
   \<and> stages (fst (mainGifs noTools missingInstaller (freshProcess twoTextureFrames)))
       = [CheckInput, BuildGroups, ProbeTools, InstallTool]
   \<and> exitCode (fst (mainGifs noTools missingInstaller (freshProcess twoTextureFrames))) = 1"
proof -
  let ?t = "\<lparr>successCount = 0, failCount = 1,
             attempts = [Attempt ImageMagick ''a'' False, Attempt FFmpeg ''a'' False]\<rparr>"
  let ?s1 = "\<lparr>sys = twoTransparentFrames, imageMagickPath = None, MAGICK_PATH = None,
              execLog = [''magick -version'', ''convert -version'']\<rparr>"
  let ?s2 = "\<lparr>sys = twoTextureFrames, imageMagickPath = None, MAGICK_PATH = None,
              execLog = [''magick -version'', ''convert -version'', ''ffmpeg -version'']\<rparr>"
  let ?g = "[(''door'', [\<lparr>file = ''door_0.png'', frame = 0, path = ''converted/textures/door_0.png''\<rparr>,
                         \<lparr>file = ''door_1.png'', frame = 1, path = ''converted/textures/door_1.png''\<rparr>])]"
  have a: "\<not> existsSync transparentDir (sys (freshProcess emptySystem))"
    by (simp add: system_defs)
  have a': "fst (mainTransparentGifs noTools (freshProcess emptySystem))
       = \<lparr>exitCode = 1, stages = [CheckInput],
          ending = Fatal ''Transparent textures directory not found''\<rparr>"
    using main_stage_order [where s = "freshProcess emptySystem" and sh = noTools,
            THEN conjunct1] a by simp
  have b: "existsSync transparentDir (sys (freshProcess twoTransparentFrames))"
    by (simp add: twoTransparentFrames_def system_defs)
  have b': "fst (mainTransparentGifs convertOnly (freshProcess twoTransparentFrames))
       = \<lparr>exitCode = 0,
          stages = [CheckInput, ProbeTools, BuildGroups, ProcessGroups, PrintTally],
          ending = Done ?t\<rparr>"
    using main_stage_order [where s = "freshProcess twoTransparentFrames" and sh = convertOnly
            and ?s1.0 = ?s1 and tool = "''imagemagick-convert''" and t = ?t,
            THEN conjunct2, THEN conjunct2, THEN conjunct1]
          b probe_convertOnly [of twoTransparentFrames] twoTransparentFrames_tally
    by simp
  have c: "existsSync texturesDir (sys (freshProcess twoTextureFrames))"
    by (simp add: twoTextureFrames_def system_defs)
  have r: "readdirSync texturesDir (sys (freshProcess twoTextureFrames))
           = Inr [''door_0.png'', ''door_1.png'']"
    by (simp add: twoTextureFrames_def system_defs)
  have k: "objectKeys ?g \<noteq> []"
    by (simp add: objectKeys_def isArrayIndex_def isDigit_def)
  have i: "fst (missingInstaller ?s2) = Inl (ReferenceError ''installImageMagick is not defined'')"
    by (simp add: missingInstaller_def)
  have c': "stages (fst (mainGifs noTools missingInstaller (freshProcess twoTextureFrames)))
       = [CheckInput, BuildGroups, ProbeTools, InstallTool]
     \<and> exitCode (fst (mainGifs noTools missingInstaller (freshProcess twoTextureFrames))) = 1"
    using main_stage_order [where s = "freshProcess twoTextureFrames" and sh = noTools
            and ?s1.0 = ?s2 and install = missingInstaller and groups = ?g
            and names = "[''door_0.png'', ''door_1.png'']",
            THEN conjunct2, THEN conjunct2, THEN conjunct2, THEN conjunct2]
          c r twoTextureFrames_groups k probe_noTools_twoTextureFrames i
    by simp
  have p1: "fst (checkDependencies convertOnly (freshProcess twoTransparentFrames))
       = Resolved (Some ''imagemagick-convert'')"
    by (simp add: probe_convertOnly)
  have p2: "fst (checkDependencies noTools (freshProcess twoTextureFrames)) = Resolved None"
    by (simp add: probe_noTools_twoTextureFrames)
  from a a' b p1 b' c p2 c' show ?thesis by blast
qed


end
